theory Spec2Isabelle
  imports Main "HOL-Library.Product_Lexorder" "HOL-Library.List_Lexorder"
    "HOL-Library.Char_ord" "HOL-Library.Sublist"
begin

section \<open>Calendar dates and timestamps\<close>

text \<open>
  The column \<open>tweet_created\<close> holds pandas timestamps. pandas stores a timestamp as a
  64-bit count of nanoseconds since 1970-01-01T00:00:00 and derives every calendar
  field from that count; the model keeps the count (an \<open>int\<close>) and derives the fields
  the script reads: \<open>.dt.hour\<close>, \<open>.dt.date\<close> and \<open>.dt.to_period('W').astype(str)\<close>.
  Chronological order of timestamps is the order of the counts.

  A \<open>datetime.date\<close> is the triple (year, month, day); Python compares dates
  field by field in that order, which is the lexicographic order of the triple.
\<close>

type_synonym timestamp = int
type_synonym date = "nat \<times> nat \<times> nat"

definition ns_per_hour :: int where
  "ns_per_hour = 3600000000000"

definition ns_per_day :: int where
  "ns_per_day = 86400000000000"

text \<open>The range of a 64-bit nanosecond count, the smallest value being reserved (NaT).\<close>

definition in_ts_range :: "timestamp \<Rightarrow> bool" where
  "in_ts_range t = (- 9223372036854775808 < t \<and> t < 9223372036854775808)"

definition is_leap :: "nat \<Rightarrow> bool" where
  "is_leap y = (y mod 4 = 0 \<and> (y mod 100 \<noteq> 0 \<or> y mod 400 = 0))"

definition days_in_year :: "nat \<Rightarrow> nat" where
  "days_in_year y = (if is_leap y then 366 else 365)"

definition days_in_month :: "nat \<Rightarrow> nat \<Rightarrow> nat" where
  "days_in_month y m =
     (if m = 2 then (if is_leap y then 29 else 28)
      else if m = 4 \<or> m = 6 \<or> m = 9 \<or> m = 11 then 30 else 31)"

text \<open>
  The number of days before the first of January of year \<open>y\<close>, counted from
  0001-01-01, and the number of days from the first of month \<open>m\<close> to the end of the
  year. Both serve to state what \<open>year_day\<close> and \<open>month_day\<close> compute.
\<close>

definition days_before_year :: "nat \<Rightarrow> nat" where
  "days_before_year y =
     365 * (y - 1) + (y - 1) div 4 + (y - 1) div 400 - (y - 1) div 100"

definition days_from_month :: "nat \<Rightarrow> nat \<Rightarrow> nat" where
  "days_from_month y m = sum_list (map (days_in_month y) [m..<13])"

text \<open>
  \<open>year_day n y\<close>: the year and the zero-based day of the year that lie \<open>n\<close> days after
  the first of January of year \<open>y\<close>. Any 400 consecutive years of the Gregorian
  calendar have 146097 days, so whole cycles are skipped first.
\<close>

function year_day :: "nat \<Rightarrow> nat \<Rightarrow> nat \<times> nat" where
  "year_day n y =
     (if 146097 \<le> n then year_day (n - 146097) (y + 400)
      else if days_in_year y \<le> n then year_day (n - days_in_year y) (y + 1)
      else (y, n))"
  by pat_completeness auto
termination
  by (relation "measure (\<lambda>(n, y). n)") (auto simp: days_in_year_def)

declare year_day.simps [simp del]

text \<open>
  \<open>month_day y n m\<close>: the month and the one-based day of the month that lie \<open>n\<close> days
  after the first of month \<open>m\<close> of year \<open>y\<close>.
\<close>

function month_day :: "nat \<Rightarrow> nat \<Rightarrow> nat \<Rightarrow> nat \<times> nat" where
  "month_day y n m =
     (if m < 12 \<and> days_in_month y m \<le> n
      then month_day y (n - days_in_month y m) (m + 1) else (m, n + 1))"
  by pat_completeness auto
termination
  by (relation "measure (\<lambda>(y, n, m). 12 - m)") auto

declare month_day.simps [simp del]

text \<open>
  \<open>date.fromordinal\<close>: ordinal 1 is 0001-01-01 in the proleptic Gregorian calendar.
\<close>

definition fromordinal :: "nat \<Rightarrow> date" where
  "fromordinal n =
     (case year_day (n - 1) 1 of (y, r) \<Rightarrow>
        (case month_day y r 1 of (m, d) \<Rightarrow> (y, m, d)))"

text \<open>The ordinal of the day a timestamp falls on; 1970-01-01 has ordinal 719163.\<close>

definition dt_ordinal :: "timestamp \<Rightarrow> nat" where
  "dt_ordinal t = nat (t div ns_per_day + 719163)"

definition dt_date :: "timestamp \<Rightarrow> date" where
  "dt_date t = fromordinal (dt_ordinal t)"

definition dt_hour :: "timestamp \<Rightarrow> nat" where
  "dt_hour t = nat ((t mod ns_per_day) div ns_per_hour)"

subsection \<open>Rendering dates\<close>

definition digit :: "nat \<Rightarrow> char" where
  "digit k = ''0123456789'' ! k"

definition pad2 :: "nat \<Rightarrow> string" where
  "pad2 n = [digit (n div 10 mod 10), digit (n mod 10)]"

definition pad4 :: "nat \<Rightarrow> string" where
  "pad4 n = [digit (n div 1000 mod 10), digit (n div 100 mod 10),
             digit (n div 10 mod 10), digit (n mod 10)]"

text \<open>\<open>YYYY-MM-DD\<close>, the text of a date.\<close>

definition isoformat :: "date \<Rightarrow> string" where
  "isoformat dt = (case dt of (y, m, d) \<Rightarrow> pad4 y @ ''-'' @ pad2 m @ ''-'' @ pad2 d)"

text \<open>
  \<open>to_period('W')\<close> is the weekly period that ends on Sunday: it starts on the Monday
  on or before the day. Its text is \<open>start/end\<close>, for example
  \<open>2015-02-16/2015-02-22\<close>. \<open>weekday\<close> counts from Monday = 0.
\<close>

definition weekday :: "nat \<Rightarrow> nat" where
  "weekday n = (n + 6) mod 7"

definition week_start :: "nat \<Rightarrow> nat" where
  "week_start n = n - weekday n"

definition week_label :: "timestamp \<Rightarrow> string" where
  "week_label t =
     (let s = week_start (dt_ordinal t)
      in isoformat (fromordinal s) @ ''/'' @ isoformat (fromordinal (s + 6)))"

text \<open>Decimal text of a number, as \<open>str(n)\<close> and an f-string give it.\<close>

fun show_nat :: "nat \<Rightarrow> string" where
  "show_nat n = (if n < 10 then [digit n] else show_nat (n div 10) @ [digit (n mod 10)])"

declare show_nat.simps [simp del]

section \<open>The table\<close>

text \<open>
  One record of \<open>Tweets.csv\<close> as \<open>pd.read_csv\<close> and \<open>pd.to_datetime\<close> deliver it.
  The script reads four columns by name; the cells of the file's further columns are
  carried along as text under their column names. An empty cell of the file is a
  missing value (\<open>NaN\<close>) of the table: the sentiment label of a record may be missing,
  and so may its coordinates. Every record has an airline, a text and a parsed
  timestamp.
\<close>

text \<open>
  The field \<open>tweet_text\<close> is the column \<open>text\<close>, and \<open>others\<close> holds the cells of the
  columns that the script does not name. The fields \<open>latitude\<close> and \<open>longitude\<close> are the
  cells of the coordinate columns, in millionths of a degree, for a file that has such
  columns (the header says whether it has).
\<close>

record tweet =
  airline_sentiment :: "string option"
  airline :: string
  tweet_text :: string
  tweet_created :: timestamp
  latitude :: "int option"
  longitude :: "int option"
  others :: "(string \<times> string) list"

text \<open>
  The value of the derived column \<open>time\<close>: an hour of the day, a calendar date or the
  text of a weekly period, depending on the granularity chosen.
\<close>

datatype label = Hour nat | Day date | Week string

text \<open>
  A row of the data frame: the loaded cells, the derived \<open>date\<close> and the derived
  \<open>time\<close> (\<open>None\<close> while the frame has no value for it).
\<close>

record row = tweet +
  date :: date
  time :: "label option"

text \<open>
  A data frame: the labels of its columns, in order, and its rows. A frame shows the
  cells of its rows under these labels; the value of the variable \<open>data\<close> of the script
  is a frame.
\<close>

record frame =
  columns :: "string list"
  rows :: "row list"

text \<open>The content of the file: the column names of its first line, and its records.\<close>

record csv =
  header :: "string list"
  records :: "tweet list"

text \<open>\<open>df[c] = values\<close>: an existing column keeps its place, a new one is appended.\<close>

definition set_column :: "string \<Rightarrow> string list \<Rightarrow> string list" where
  "set_column c cs = (if c \<in> set cs then cs else cs @ [c])"

text \<open>
  \<open>load_data\<close>: the file is read, the timestamps are parsed, and the column \<open>date\<close>
  gets the calendar date of each timestamp.
\<close>

definition load_row :: "tweet \<Rightarrow> row" where
  "load_row tw =
     \<lparr>airline_sentiment = airline_sentiment tw, airline = airline tw,
      tweet_text = tweet_text tw, tweet_created = tweet_created tw,
      latitude = latitude tw, longitude = longitude tw, others = others tw,
      date = dt_date (tweet_created tw), time = None\<rparr>"

definition load_data :: "csv \<Rightarrow> frame" where
  "load_data file =
     \<lparr>columns = set_column ''date'' (header file), rows = map load_row (records file)\<rparr>"

subsection \<open>Row selection by a boolean mask\<close>

text \<open>\<open>a & b\<close> on two boolean columns, and \<open>df[mask]\<close>.\<close>

definition mask_and :: "bool list \<Rightarrow> bool list \<Rightarrow> bool list" where
  "mask_and a b = map (\<lambda>(x, y). x \<and> y) (zip a b)"

definition select_rows :: "bool list \<Rightarrow> frame \<Rightarrow> frame" where
  "select_rows m df = df\<lparr>rows := map fst (filter snd (zip (rows df) m))\<rparr>"

text \<open>
  \<open>data[(data['date'] >= selected_dates[0]) & (data['date'] <= selected_dates[1])]\<close>
\<close>

definition date_filter :: "date \<Rightarrow> date \<Rightarrow> frame \<Rightarrow> frame" where
  "date_filter lo hi df =
     select_rows (mask_and (map (\<lambda>r. lo \<le> date r) (rows df))
                           (map (\<lambda>r. date r \<le> hi) (rows df))) df"

text \<open>
  \<open>data[(data['tweet_created'].dt.hour >= hour_range[0]) &
         (data['tweet_created'].dt.hour <= hour_range[1])]\<close>
\<close>

definition hour_filter :: "nat \<times> nat \<Rightarrow> frame \<Rightarrow> frame" where
  "hour_filter hour_range df =
     select_rows (mask_and (map (\<lambda>r. fst hour_range \<le> dt_hour (tweet_created r)) (rows df))
                           (map (\<lambda>r. dt_hour (tweet_created r) \<le> snd hour_range) (rows df))) df"

text \<open>\<open>df[[c1, ..., cn]]\<close>: the same rows, shown under the listed columns only.\<close>

definition project :: "string list \<Rightarrow> frame \<Rightarrow> frame" where
  "project cs df = df\<lparr>columns := cs\<rparr>"

subsection \<open>Aggregation\<close>

text \<open>\<open>Series.unique()\<close>: the distinct values in order of first appearance.\<close>

definition unique :: "'a list \<Rightarrow> 'a list" where
  "unique xs = rev (remdups (rev xs))"

text \<open>
  The values of a column that are present: \<open>value_counts\<close> and \<open>groupby\<close> leave the
  missing ones out (\<open>dropna=True\<close> is their default).
\<close>

definition dropna :: "'a option list \<Rightarrow> 'a list" where
  "dropna xs = List.map_filter (\<lambda>x. x) xs"

text \<open>
  \<open>Series.value_counts()\<close>, on the values that are present: one entry per distinct value
  with the number of its occurrences, the most frequent first.
\<close>

definition value_counts :: "'a list \<Rightarrow> ('a \<times> nat) list" where
  "value_counts xs =
     sort_key (\<lambda>p. - int (snd p)) (map (\<lambda>v. (v, count_list xs v)) (unique xs))"

text \<open>
  The order in which \<open>groupby\<close> sorts the values of the \<open>time\<close> column: hours as
  numbers, dates as dates, period texts as strings.
\<close>

definition label_key :: "label \<Rightarrow> nat \<times> date \<times> string" where
  "label_key l =
     (case l of Hour h \<Rightarrow> (h, (0, 0, 0), [])
              | Day d \<Rightarrow> (0, d, [])
              | Week w \<Rightarrow> (0, (0, 0, 0), w))"

text \<open>
  \<open>df.groupby(['time', 'airline_sentiment']).size().reset_index(name='count')\<close>:
  one entry per key pair that occurs, sorted by key, with the size of its group.
  \<open>groupby\<close> leaves out the rows that have no value for one of the keys.
\<close>

definition group_key :: "row \<Rightarrow> (label \<times> string) option" where
  "group_key r =
     (case (time r, airline_sentiment r) of
        (Some t, Some s) \<Rightarrow> Some (t, s)
      | _ \<Rightarrow> None)"

definition group_keys :: "frame \<Rightarrow> (label \<times> string) list" where
  "group_keys df = dropna (map group_key (rows df))"

definition groupby_size :: "(label \<times> string) list \<Rightarrow> ((label \<times> string) \<times> nat) list" where
  "groupby_size ks =
     map (\<lambda>k. (k, count_list ks k)) (sort_key (\<lambda>(l, s). (label_key l, s)) (remdups ks))"

definition time_series :: "frame \<Rightarrow> ((label \<times> string) \<times> nat) list" where
  "time_series df = groupby_size (group_keys df)"

text \<open>
  \<open>data['airline_sentiment'].value_counts().reset_index()\<close>, columns renamed to
  \<open>Sentiment\<close> and \<open>Count\<close>.
\<close>

definition sentiment_count :: "frame \<Rightarrow> (string \<times> nat) list" where
  "sentiment_count df = value_counts (dropna (map airline_sentiment (rows df)))"

text \<open>
  The three branches on \<open>time_agg\<close> that compute the \<open>time\<close> column; the last branch
  takes every value other than \<open>Hourly\<close> and \<open>Daily\<close>.
\<close>

definition bucket :: "string \<Rightarrow> timestamp \<Rightarrow> label" where
  "bucket time_agg t =
     (if time_agg = ''Hourly'' then Hour (dt_hour t)
      else if time_agg = ''Daily'' then Day (dt_date t)
      else Week (week_label t))"

definition assign_time :: "string \<Rightarrow> frame \<Rightarrow> frame" where
  "assign_time time_agg df =
     \<lparr>columns = set_column ''time'' (columns df),
      rows = map (\<lambda>r. r\<lparr>time := Some (bucket time_agg (tweet_created r))\<rparr>) (rows df)\<rparr>"

section \<open>Text\<close>

text \<open>\<open>sep.join(xs)\<close>\<close>

fun join :: "string \<Rightarrow> string list \<Rightarrow> string" where
  "join sep [] = []"
| "join sep [x] = x"
| "join sep (x # y # ys) = x @ sep @ join sep (y # ys)"

definition lower_char :: "char \<Rightarrow> char" where
  "lower_char c =
     (case map_of (zip ''ABCDEFGHIJKLMNOPQRSTUVWXYZ'' ''abcdefghijklmnopqrstuvwxyz'') c of
        Some d \<Rightarrow> d | None \<Rightarrow> c)"

text \<open>\<open>str.lower()\<close>, on ASCII text.\<close>

definition lower :: "string \<Rightarrow> string" where
  "lower s = map lower_char s"

text \<open>\<open>str.isdigit()\<close>, on ASCII text.\<close>

definition isdigit :: "string \<Rightarrow> bool" where
  "isdigit s = (s \<noteq> [] \<and> list_all (\<lambda>c. c \<in> set ''0123456789'') s)"

text \<open>The exceptions that can end a pass.\<close>

datatype exn = StreamlitAPIException string | ValueError string | UnidentifiedImageError

subsection \<open>Word cloud\<close>

text \<open>
  \<open>WordCloud(stopwords, max_words, ...).generate(text)\<close> is the word-cloud generator of
  the \<open>wordcloud\<close> package, which is not part of the sources (only the call is). The
  spec describes it as a word-frequency cloud over the text with a maximum word count
  and a stopword exclusion set. The definitions of this subsection model it, following
  the package's text processing for single words over ASCII text; the placement of the
  entries in the image, the joining of frequent word pairs and the merging of plural and
  case variants are not modelled.
\<close>

text \<open>
  Modelled from the spec: the tokens of the text, which the generator (missing from the
  sources) counts: a letter, digit or underscore followed by letters, digits,
  underscores and apostrophes.
\<close>

definition is_word_char :: "char \<Rightarrow> bool" where
  "is_word_char c =
     (c \<in> set ''abcdefghijklmnopqrstuvwxyzABCDEFGHIJKLMNOPQRSTUVWXYZ0123456789_'')"

definition is_token_char :: "char \<Rightarrow> bool" where
  "is_token_char c = (is_word_char c \<or> c = CHR 0x27)"

fun scan :: "string \<Rightarrow> string \<Rightarrow> string list" where
  "scan cur [] = (if cur = [] then [] else [cur])"
| "scan cur (c # cs) =
     (if cur = [] then (if is_word_char c then scan [c] cs else scan [] cs)
      else if is_token_char c then scan (cur @ [c]) cs
      else cur # scan [] cs)"

definition findall :: "string \<Rightarrow> string list" where
  "findall s = scan [] s"

definition strip_possessive :: "string \<Rightarrow> string" where
  "strip_possessive w =
     (if 2 \<le> length w \<and> lower (drop (length w - 2) w) = [CHR 0x27, CHR ''s'']
      then take (length w - 2) w else w)"

text \<open>
  Modelled from the spec: the word frequencies of the generator (missing from the
  sources) with its stopword exclusion set. A trailing \<open>'s\<close> is cut off the tokens,
  tokens made of digits only are dropped, tokens whose lower-case form is the lower-case
  form of a stopword are dropped, and the remaining words are counted, the most
  frequent first.
\<close>

definition process_text :: "string list \<Rightarrow> string \<Rightarrow> (string \<times> nat) list" where
  "process_text stopwords s =
     (let words = map strip_possessive (findall s);
          words = filter (\<lambda>w. \<not> isdigit w) words;
          sw = map lower stopwords;
          words = filter (\<lambda>w. lower w \<notin> set sw) words
      in value_counts words)"

text \<open>
  Modelled from the spec: \<open>WordCloud(stopwords, max_words).generate(text)\<close>, missing from
  the sources: the \<open>max_words\<close> most frequent words are the entries of the cloud. A text
  with no word left makes the generator raise \<open>ValueError\<close>.
\<close>

definition wordcloud_generate ::
  "string list \<Rightarrow> nat \<Rightarrow> string \<Rightarrow> exn + (string \<times> nat) list" where
  "wordcloud_generate stopwords max_words s =
     (let frequencies = process_text stopwords s
      in if frequencies = []
         then Inl (ValueError ''We need at least 1 word to plot a word cloud, got 0.'')
         else Inr (take max_words frequencies))"

section \<open>The render pass\<close>

text \<open>
  The script runs from top to bottom on every interaction. Its inputs are the loaded
  file, the values the widgets return and the outcome of the HTTP request; its output
  is the sequence of elements it hands to the page, and the exception that ended the
  pass, if any. Titles, headers and separators with fixed text carry no data and are
  left out of the sequence.
\<close>

datatype chart =
    Bar "(string \<times> nat) list"
  | Pie "(string \<times> nat) list"
  | Line "((label \<times> string) \<times> nat) list"
  | Subplots "(string \<times> (string \<times> nat) list) list"

datatype ui =
    SidebarError string
  | PlotlyChart chart
  | Subheader string
  | Markdown string
  | MapView frame
  | Dataframe frame
  | Warning string
  | Pyplot string "(string \<times> nat) list"
  | DownloadButton string string
  | SidebarDownload string string string
  | SidebarImage string
  | SidebarAbout
  | SidebarFeatures

text \<open>
  What a part of the script has shown, and the exception it raised, if any. A part that
  raises ends the pass: nothing after it runs.
\<close>

record outcome =
  shown :: "ui list"
  raised :: "exn option"

definition showed :: "ui list \<Rightarrow> outcome" where
  "showed es = \<lparr>shown = es, raised = None\<rparr>"

definition ran :: "exn + ui list \<Rightarrow> outcome" where
  "ran r = (case r of Inl e \<Rightarrow> \<lparr>shown = [], raised = Some e\<rparr> | Inr es \<Rightarrow> showed es)"

text \<open>Sequencing: the second part runs only when the first has raised nothing.\<close>

definition then_run :: "outcome \<Rightarrow> outcome \<Rightarrow> outcome" where
  "then_run a b =
     (if raised a = None then \<lparr>shown = shown a @ shown b, raised = raised b\<rparr> else a)"

subsection \<open>Sidebar: date selection\<close>

text \<open>
  \<open>st.date_input\<close> with a list as its value returns a tuple of the dates picked so
  far: none, one or two.
\<close>

definition apply_date_selection :: "date list \<Rightarrow> frame \<Rightarrow> frame \<times> ui list" where
  "apply_date_selection selected_dates data =
     (if length selected_dates = 2
      then (date_filter (selected_dates ! 0) (selected_dates ! 1) data, [])
      else (data, [SidebarError ''Please select a date range'']))"

subsection \<open>Tab 1: overview\<close>

definition tab1 :: "string \<Rightarrow> string \<Rightarrow> frame \<Rightarrow> frame \<times> ui list" where
  "tab1 viz_type time_agg data =
     (let fig = (if viz_type = ''Bar plot'' then Bar (sentiment_count data)
                 else Pie (sentiment_count data));
          data' = assign_time time_agg data
      in (data', [PlotlyChart fig, PlotlyChart (Line (time_series data'))]))"

subsection \<open>Tab 2: geospatial\<close>

definition preview_columns :: "string list" where
  "preview_columns = [''text'', ''airline'', ''airline_sentiment'', ''tweet_created'']"

text \<open>
  \<open>st.map(df)\<close> draws the default map for a table without rows. Otherwise it looks for
  the latitude column under one of four names and then for the longitude column
  likewise, and raises \<open>StreamlitAPIException\<close> when the table has no such column or when
  the column holds a missing value. The result is the exception raised, if any.
\<close>

definition lat_names :: "string list" where
  "lat_names = [''lat'', ''latitude'', ''LAT'', ''LATITUDE'']"

definition lon_names :: "string list" where
  "lon_names = [''lon'', ''longitude'', ''LON'', ''LONGITUDE'']"

definition st_map :: "frame \<Rightarrow> exn option" where
  "st_map df =
     (if rows df = [] then None
      else if \<not> list_ex (\<lambda>c. c \<in> set (columns df)) lat_names
      then Some (StreamlitAPIException ''Map data must contain a latitude column'')
      else if list_ex (\<lambda>r. latitude r = None) (rows df)
      then Some (StreamlitAPIException ''The latitude column holds a null value'')
      else if \<not> list_ex (\<lambda>c. c \<in> set (columns df)) lon_names
      then Some (StreamlitAPIException ''Map data must contain a longitude column'')
      else if list_ex (\<lambda>r. longitude r = None) (rows df)
      then Some (StreamlitAPIException ''The longitude column holds a null value'')
      else None)"

text \<open>
  The subheader and the number of tweets are shown before \<open>st.map\<close> is called; the
  preview, when its box is ticked, shows four columns of \<open>filtered_data\<close>.
\<close>

definition tab2 :: "nat \<times> nat \<Rightarrow> bool \<Rightarrow> frame \<Rightarrow> outcome" where
  "tab2 hour_range show_preview data =
     (let filtered_data = hour_filter hour_range data;
          found = [Subheader (''Tweet Locations ('' @ show_nat (fst hour_range) @ '':00 - ''
                              @ show_nat (snd hour_range) @ '':00)''),
                   Markdown (''**'' @ show_nat (length (rows filtered_data))
                             @ '' tweets found**'')]
      in case st_map filtered_data of
           Some e \<Rightarrow> \<lparr>shown = found, raised = Some e\<rparr>
         | None \<Rightarrow>
             showed (found @ [MapView filtered_data]
                     @ (if show_preview
                        then [Dataframe (project preview_columns filtered_data)] else [])))"

subsection \<open>Tab 3: airlines\<close>

text \<open>
  \<open>st.multiselect\<close> raises \<open>StreamlitAPIException\<close> when a default value is not among
  the options; the exception carries the value. The options are the airlines of the
  current table.
\<close>

definition default_airlines :: "string list" where
  "default_airlines = [''United'', ''American'', ''Delta'']"

definition airline_counts :: "frame \<Rightarrow> string \<Rightarrow> (string \<times> nat) list" where
  "airline_counts data a =
     value_counts (dropna (map airline_sentiment (filter (\<lambda>r. airline r = a) (rows data))))"

definition tab3 :: "string list \<Rightarrow> frame \<Rightarrow> exn + ui list" where
  "tab3 selected_airlines data =
     (case find (\<lambda>d. d \<notin> set (unique (map airline (rows data)))) default_airlines of
        Some d \<Rightarrow> Inl (StreamlitAPIException d)
      | None \<Rightarrow>
          if selected_airlines \<noteq> []
          then Inr [PlotlyChart (Subplots (map (\<lambda>a. (a, airline_counts data a)) selected_airlines))]
          else Inr [Warning ''Please select at least one airline''])"

subsection \<open>Tab 4: text analysis\<close>

definition custom_stopwords :: "string list" where
  "custom_stopwords = [''http'', ''https'', ''co'', ''RT'']"

text \<open>
  \<open>STOPWORDS\<close>, the stopword list of the \<open>wordcloud\<close> package, is library data and a
  parameter here.
\<close>

definition tab4 :: "string list \<Rightarrow> string \<Rightarrow> nat \<Rightarrow> string \<Rightarrow> frame \<Rightarrow> exn + ui list" where
  "tab4 STOPWORDS word_sentiment max_words colormap data =
     (if word_sentiment \<noteq> []
      then
        (let df = filter (\<lambda>r. airline_sentiment r = Some word_sentiment) (rows data);
             txt = join '' '' (map tweet_text df);
             stopwords = STOPWORDS @ custom_stopwords
         in case wordcloud_generate stopwords max_words txt of
              Inl e \<Rightarrow> Inl e
            | Inr wordcloud \<Rightarrow>
                Inr [Pyplot colormap wordcloud,
                     DownloadButton (word_sentiment @ ''_wordcloud.png'') ''image/png''])
      else Inr [])"

subsection \<open>Sidebar: export\<close>

text \<open>
  \<open>DataFrame.to_csv(index=False)\<close>: a line with the column names, then one line per
  row; a field that contains the delimiter, a quote or a line break is quoted. The
  text pandas writes for a cell is the parameter \<open>cell\<close>. The text is modelled as its
  UTF-8 bytes, so \<open>.encode('utf-8')\<close> returns it unchanged.
\<close>

definition csv_field :: "string \<Rightarrow> string" where
  "csv_field s =
     (if list_ex (\<lambda>c. c \<in> set [CHR '','', CHR 0x22, CHR 0x0A, CHR 0x0D]) s
      then [CHR 0x22] @ concat (map (\<lambda>c. if c = CHR 0x22 then [c, c] else [c]) s) @ [CHR 0x22]
      else s)"

definition csv_line :: "string list \<Rightarrow> string" where
  "csv_line fs = join '','' (map csv_field fs) @ [CHR 0x0A]"

definition to_csv :: "(string \<Rightarrow> row \<Rightarrow> string) \<Rightarrow> frame \<Rightarrow> string" where
  "to_csv cell df =
     csv_line (columns df)
     @ concat (map (\<lambda>r. csv_line (map (\<lambda>c. cell c r) (columns df))) (rows df))"

definition encode_utf8 :: "string \<Rightarrow> string" where
  "encode_utf8 s = s"

definition sidebar_export :: "(string \<Rightarrow> row \<Rightarrow> string) \<Rightarrow> bool \<Rightarrow> frame \<Rightarrow> ui list" where
  "sidebar_export cell clicked data =
     (if clicked
      then [SidebarDownload (encode_utf8 (to_csv cell data)) ''airline_tweets.csv'' ''text/csv'']
      else [])"

subsection \<open>Sidebar: avatar\<close>

text \<open>
  \<open>requests.get\<close> either returns a response or raises; what it raises for a failed
  request are subclasses of \<open>RequestException\<close>, each with a message.
  \<open>raise_for_status\<close> raises \<open>HTTPError\<close> for the status codes 400 to 599.
  The bytes of a body are tagged by whether the image library recognises an image in
  them.
\<close>

datatype request_exception = ConnectionError string | Timeout string | HTTPError string

datatype body = ImageBytes string | OtherBytes string

record response =
  status_code :: nat
  reason :: string
  url :: string
  content :: body

datatype fetch = Responded response | Raised request_exception

definition str_of :: "request_exception \<Rightarrow> string" where
  "str_of e = (case e of ConnectionError m \<Rightarrow> m | Timeout m \<Rightarrow> m | HTTPError m \<Rightarrow> m)"

definition raise_for_status :: "response \<Rightarrow> request_exception option" where
  "raise_for_status r =
     (if 400 \<le> status_code r \<and> status_code r < 500
      then Some (HTTPError (show_nat (status_code r) @ '' Client Error: '' @ reason r
                            @ '' for url: '' @ url r))
      else if 500 \<le> status_code r \<and> status_code r < 600
      then Some (HTTPError (show_nat (status_code r) @ '' Server Error: '' @ reason r
                            @ '' for url: '' @ url r))
      else None)"

text \<open>
  \<open>st.sidebar.image(image, caption)\<close> on bytes opens them with the image library, which
  raises \<open>UnidentifiedImageError\<close> when they are no image.
\<close>

definition sidebar_image :: "body \<Rightarrow> exn + ui list" where
  "sidebar_image b =
     (case b of ImageBytes s \<Rightarrow> Inr [SidebarImage s] | OtherBytes s \<Rightarrow> Inl UnidentifiedImageError)"

text \<open>
  The \<open>try\<close> block and its handler. The handler takes the request exceptions: those of
  \<open>requests.get\<close> and of \<open>raise_for_status\<close>. The exception of \<open>st.sidebar.image\<close> is none
  of them and leaves the block.
\<close>

definition avatar :: "fetch \<Rightarrow> outcome" where
  "avatar f =
     (case f of
        Raised e \<Rightarrow> showed [SidebarError (''Error loading image: '' @ str_of e)]
      | Responded r \<Rightarrow>
          (case raise_for_status r of
             Some e \<Rightarrow> showed [SidebarError (''Error loading image: '' @ str_of e)]
           | None \<Rightarrow> ran (sidebar_image (content r))))"

definition sidebar_about :: "fetch \<Rightarrow> outcome" where
  "sidebar_about f = then_run (avatar f) (showed [SidebarAbout, SidebarFeatures])"

subsection \<open>The script\<close>

record inputs =
  selected_dates :: "date list"
  viz_type :: string
  time_agg :: string
  hour_range :: "nat \<times> nat"
  show_preview :: bool
  selected_airlines :: "string list"
  word_sentiment :: string
  max_words :: nat
  colormap :: string
  export_clicked :: bool
  image_fetch :: fetch

text \<open>
  The four tabs, as a function of the table the date selection left in \<open>data\<close>: the
  table that the overview tab leaves in \<open>data\<close>, and the outcome. An exception ends the
  pass; what was shown before it stays shown.
\<close>

definition tabs :: "string list \<Rightarrow> inputs \<Rightarrow> frame \<Rightarrow> frame \<times> outcome" where
  "tabs STOPWORDS inp data0 =
     (case tab1 (viz_type inp) (time_agg inp) data0 of (data, out1) \<Rightarrow>
        (data,
         then_run (showed out1)
           (then_run (tab2 (hour_range inp) (show_preview inp) data)
              (then_run (ran (tab3 (selected_airlines inp) data))
                 (ran (tab4 STOPWORDS (word_sentiment inp) (max_words inp) (colormap inp)
                         data))))))"

text \<open>
  Everything after the date selection: the four tabs, the export and the rest of the
  sidebar.
\<close>

definition panels ::
  "(string \<Rightarrow> row \<Rightarrow> string) \<Rightarrow> string list \<Rightarrow> inputs \<Rightarrow> frame \<Rightarrow> outcome" where
  "panels cell STOPWORDS inp data0 =
     (case tabs STOPWORDS inp data0 of (data, r) \<Rightarrow>
        then_run r
          (then_run (showed (sidebar_export cell (export_clicked inp) data))
                    (sidebar_about (image_fetch inp))))"

definition script ::
  "(string \<Rightarrow> row \<Rightarrow> string) \<Rightarrow> string list \<Rightarrow> csv \<Rightarrow> inputs \<Rightarrow> outcome" where
  "script cell STOPWORDS file inp =
     (case apply_date_selection (selected_dates inp) (load_data file) of (data0, out0) \<Rightarrow>
      let r = panels cell STOPWORDS inp data0 in r\<lparr>shown := out0 @ shown r\<rparr>)"

text \<open>
  The table that the variable \<open>data\<close> holds from the end of the overview tab to the end
  of the pass: the loaded table, after the date selection and the assignment of \<open>time\<close>.
\<close>

definition current_data :: "csv \<Rightarrow> inputs \<Rightarrow> frame" where
  "current_data file inp =
     assign_time (time_agg inp)
       (fst (apply_date_selection (selected_dates inp) (load_data file)))"

text \<open>The outcome of the four tabs in a pass.\<close>

definition tabs_outcome :: "string list \<Rightarrow> csv \<Rightarrow> inputs \<Rightarrow> outcome" where
  "tabs_outcome STOPWORDS file inp =
     snd (tabs STOPWORDS inp
            (fst (apply_date_selection (selected_dates inp) (load_data file))))"

subsection \<open>What the consumers of the table are handed\<close>

text \<open>
  The tables given to \<open>st.map\<close> and to \<open>st.dataframe\<close>, and the downloads offered in
  the sidebar (content, file name, MIME type), in the order in which they are shown.
\<close>

fun maps_shown :: "ui list \<Rightarrow> frame list" where
  "maps_shown [] = []"
| "maps_shown (MapView f # es) = f # maps_shown es"
| "maps_shown (e # es) = maps_shown es"



fun is_download :: "ui \<Rightarrow> bool" where
  "is_download (SidebarDownload b n m) = True"
| "is_download e = False"

section \<open>Sample data\<close>

text \<open>
  A small file used to run the definitions: four tweets of 20, 21 and 22 February 2015
  (at 09:15, 23:00, 01:00 and 12:30), one for each default airline, each with its
  coordinates.
\<close>

definition tw1 :: tweet where
  "tw1 = \<lparr>airline_sentiment = Some ''negative'', airline = ''United'',
          tweet_text = ''RT @united: it's a late flight http://t.co/x'',
          tweet_created = 1424423700000000000,
          latitude = Some 40712800, longitude = Some (- 74006000),
          others = [(''tweet_id'', ''1'')]\<rparr>"

definition tw2 :: tweet where
  "tw2 = \<lparr>airline_sentiment = Some ''positive'', airline = ''American'',
          tweet_text = ''Great flight thanks'',
          tweet_created = 1424473200000000000,
          latitude = Some 41878100, longitude = Some (- 87629800),
          others = [(''tweet_id'', ''2'')]\<rparr>"

definition tw3 :: tweet where
  "tw3 = \<lparr>airline_sentiment = Some ''neutral'', airline = ''Delta'',
          tweet_text = ''flight 123 to JFK'',
          tweet_created = 1424480400000000000,
          latitude = Some 33749000, longitude = Some (- 84388000),
          others = [(''tweet_id'', ''3'')]\<rparr>"

definition tw4 :: tweet where
  "tw4 = \<lparr>airline_sentiment = Some ''negative'', airline = ''United'',
          tweet_text = ''late again'',
          tweet_created = 1424608200000000000,
          latitude = Some 34052200, longitude = Some (- 118243700),
          others = [(''tweet_id'', ''4'')]\<rparr>"

definition sample_file :: csv where
  "sample_file =
     \<lparr>header = [''tweet_id'', ''airline_sentiment'', ''airline'', ''text'', ''tweet_created'',
                ''latitude'', ''longitude''],
      records = [tw1, tw2, tw3, tw4]\<rparr>"

text \<open>
  Widget values: the defaults of the script, with the whole range of dates selected, and
  a successful fetch of the avatar. The sample cell text shows the named columns of a
  row that are text already, and nothing for the others; the sample stopword list is
  short.
\<close>

definition ok_response :: response where
  "ok_response = \<lparr>status_code = 200, reason = ''OK'',
                   url = ''https://avatars.githubusercontent.com/u/97449931?v=4'',
                   content = ImageBytes ''PNG''\<rparr>"

definition sample_inputs :: inputs where
  "sample_inputs =
     \<lparr>selected_dates = [(2015, 2, 20), (2015, 2, 22)], viz_type = ''Bar plot'',
      time_agg = ''Hourly'', hour_range = (9, 17), show_preview = False,
      selected_airlines = [''United'', ''American'', ''Delta''],
      word_sentiment = ''positive'', max_words = 150, colormap = ''viridis'',
      export_clicked = False, image_fetch = Responded ok_response\<rparr>"

text \<open>The same values with a single date picked so far.\<close>

definition one_date_inputs :: inputs where
  "one_date_inputs = sample_inputs\<lparr>selected_dates := [(2015, 2, 21)]\<rparr>"

definition sample_cell :: "string \<Rightarrow> row \<Rightarrow> string" where
  "sample_cell c r =
     (if c = ''airline_sentiment'' then (case airline_sentiment r of Some s \<Rightarrow> s | None \<Rightarrow> [])
      else if c = ''airline'' then airline r
      else if c = ''text'' then tweet_text r
      else (case map_of (others r) c of Some s \<Rightarrow> s | None \<Rightarrow> []))"

definition sample_stopwords :: "string list" where
  "sample_stopwords = [''a'', ''the'', ''to'', ''it'']"

text \<open>A file with no tweet of 21 February, and its table after the selection of that day.\<close>

definition gap_file :: csv where
  "gap_file = sample_file\<lparr>records := [tw1, tw4]\<rparr>"

definition gap_day :: frame where
  "gap_day = date_filter (2015, 2, 21) (2015, 2, 21) (load_data gap_file)"

text \<open>The sample table restricted to 21 February: one neutral tweet, none positive.\<close>

definition one_day :: frame where
  "one_day = date_filter (2015, 2, 21) (2015, 2, 21) (load_data sample_file)"



text \<open>The sample inputs with the neutral class selected for the word cloud.\<close>

definition neutral_inputs :: inputs where
  "neutral_inputs = sample_inputs\<lparr>word_sentiment := ''neutral''\<rparr>"

text \<open>The sample inputs with the preview box ticked and the export button pressed.\<close>

definition preview_inputs :: inputs where
  "preview_inputs = sample_inputs\<lparr>show_preview := True, export_clicked := True\<rparr>"

text \<open>
  The sample file with the sentiment cell of its third record empty, and the sample file
  without its coordinate columns.
\<close>

definition tw5 :: tweet where
  "tw5 = tw3\<lparr>airline_sentiment := None\<rparr>"

definition unlabelled_file :: csv where
  "unlabelled_file = sample_file\<lparr>records := [tw1, tw2, tw5, tw4]\<rparr>"

definition plain_file :: csv where
  "plain_file =
     sample_file\<lparr>header := [''tweet_id'', ''airline_sentiment'', ''airline'', ''text'',
                            ''tweet_created'']\<rparr>"

text \<open>
  Outcomes of the HTTP request: a failed request, a client error, and a response that is
  no success and whose body is a page, not an image.
\<close>

definition not_found :: response where
  "not_found = \<lparr>status_code = 404, reason = ''Not Found'', url = ''https://a.test/u/1'',
                 content = OtherBytes []\<rparr>"

definition multiple_choices :: response where
  "multiple_choices = \<lparr>status_code = 300, reason = ''Multiple Choices'',
                        url = ''https://a.test/u/1'', content = OtherBytes ''<html>''\<rparr>"

definition timed_out :: request_exception where
  "timed_out = Timeout ''Read timed out.''"

text \<open>The inputs of the preview with each of these outcomes of the request.\<close>

definition not_found_inputs :: inputs where
  "not_found_inputs = preview_inputs\<lparr>image_fetch := Responded not_found\<rparr>"

definition multiple_choices_inputs :: inputs where
  "multiple_choices_inputs = preview_inputs\<lparr>image_fetch := Responded multiple_choices\<rparr>"

definition timed_out_inputs :: inputs where
  "timed_out_inputs = preview_inputs\<lparr>image_fetch := Raised timed_out\<rparr>"

section \<open>Row filters\<close>

lemma select_mask_filter:
  "map fst (filter snd (zip xs (mask_and (map P xs) (map Q xs)))) = filter (\<lambda>x. P x \<and> Q x) xs"
  by (induction xs) (auto simp: mask_and_def)

lemma rows_date_filter:
  "rows (date_filter lo hi df) = filter (\<lambda>r. lo \<le> date r \<and> date r \<le> hi) (rows df)"
  by (simp add: date_filter_def select_rows_def select_mask_filter)

lemma columns_date_filter: "columns (date_filter lo hi df) = columns df"
  by (simp add: date_filter_def select_rows_def)

lemma rows_hour_filter:
  "rows (hour_filter (lo, hi) df) =
     filter (\<lambda>r. lo \<le> dt_hour (tweet_created r) \<and> dt_hour (tweet_created r) \<le> hi) (rows df)"
  by (simp add: hour_filter_def select_rows_def select_mask_filter)

lemma columns_hour_filter: "columns (hour_filter hr df) = columns df"
  by (simp add: hour_filter_def select_rows_def)

lemma loaded_date: "r \<in> set (rows (load_data file)) \<Longrightarrow> date r = dt_date (tweet_created r)"
  by (auto simp: load_data_def load_row_def)

lemmas calendar_defs = dt_date_def dt_ordinal_def ns_per_day_def fromordinal_def
  year_day.simps month_day.simps days_in_year_def is_leap_def days_in_month_def

lemma dt_date_samples:
  "dt_date 1424423700000000000 = (2015, 2, 20)"
  "dt_date 1424473200000000000 = (2015, 2, 20)"
  "dt_date 1424480400000000000 = (2015, 2, 21)"
  "dt_date 1424608200000000000 = (2015, 2, 22)"
  by (simp_all add: calendar_defs)

lemma dt_hour_samples:
  "dt_hour 1424423700000000000 = 9"
  "dt_hour 1424473200000000000 = 23"
  "dt_hour 1424480400000000000 = 1"
  "dt_hour 1424608200000000000 = 12"
  by (simp_all add: dt_hour_def ns_per_day_def ns_per_hour_def)

lemma rows_sample:
  "rows (load_data sample_file) = [load_row tw1, load_row tw2, load_row tw3, load_row tw4]"
  by (simp add: load_data_def sample_file_def)

lemma columns_sample:
  "columns (load_data sample_file) =
     [''tweet_id'', ''airline_sentiment'', ''airline'', ''text'', ''tweet_created'',
        ''latitude'', ''longitude'', ''date'']"
  by (simp add: load_data_def sample_file_def set_column_def)

lemma date_samples:
  "date (load_row tw1) = (2015, 2, 20)" "date (load_row tw2) = (2015, 2, 20)"
  "date (load_row tw3) = (2015, 2, 21)" "date (load_row tw4) = (2015, 2, 22)"
  by (simp_all add: load_row_def tw1_def tw2_def tw3_def tw4_def dt_date_samples)

lemma created_samples:
  "tweet_created (load_row tw1) = 1424423700000000000"
  "tweet_created (load_row tw2) = 1424473200000000000"
  "tweet_created (load_row tw3) = 1424480400000000000"
  "tweet_created (load_row tw4) = 1424608200000000000"
  by (simp_all add: load_row_def tw1_def tw2_def tw3_def tw4_def)

text \<open>
  C1. The date-range filter keeps exactly the rows whose \<open>date\<close> lies between the two
  bounds, both included, in their original order and with their multiplicity, and
  leaves the columns as they are; a selection of two dates applies this filter with the
  two dates as bounds; in the loaded table the \<open>date\<close> of a row is the calendar date of
  its timestamp. This holds for any two bounds, in particular for \<open>lo \<le> hi\<close>.
\<close>

theorem date_filter_exact:
  "rows (date_filter lo hi df) = filter (\<lambda>r. lo \<le> date r \<and> date r \<le> hi) (rows df)
   \<and> subseq (rows (date_filter lo hi df)) (rows df)
   \<and> columns (date_filter lo hi df) = columns df
   \<and> fst (apply_date_selection [lo, hi] df) = date_filter lo hi df
   \<and> (\<forall>r \<in> set (rows (load_data file)). date r = dt_date (tweet_created r))"
  by (simp add: rows_date_filter columns_date_filter loaded_date apply_date_selection_def)

theorem date_filter_exact_witness:
  "rows (date_filter (2015, 2, 20) (2015, 2, 21) (load_data sample_file))
     = [load_row tw1, load_row tw2, load_row tw3]
   \<and> columns (date_filter (2015, 2, 20) (2015, 2, 21) (load_data sample_file))
     = [''tweet_id'', ''airline_sentiment'', ''airline'', ''text'', ''tweet_created'',
        ''latitude'', ''longitude'', ''date'']"
proof -
  note t = date_filter_exact [of "(2015, 2, 20)" "(2015, 2, 21)" "load_data sample_file" sample_file]
  have "rows (date_filter (2015, 2, 20) (2015, 2, 21) (load_data sample_file))
          = [load_row tw1, load_row tw2, load_row tw3]"
    by (simp add: t [THEN conjunct1] rows_sample date_samples)
  moreover have "columns (date_filter (2015, 2, 20) (2015, 2, 21) (load_data sample_file))
          = [''tweet_id'', ''airline_sentiment'', ''airline'', ''text'', ''tweet_created'',
        ''latitude'', ''longitude'', ''date'']"
    using t by (simp add: columns_sample)
  ultimately show ?thesis by simp
qed

lemma coordinates_samples:
  "latitude (load_row tw1) \<noteq> None" "latitude (load_row tw2) \<noteq> None"
  "latitude (load_row tw3) \<noteq> None" "latitude (load_row tw4) \<noteq> None"
  "longitude (load_row tw1) \<noteq> None" "longitude (load_row tw2) \<noteq> None"
  "longitude (load_row tw3) \<noteq> None" "longitude (load_row tw4) \<noteq> None"
  by (simp_all add: load_row_def tw1_def tw2_def tw3_def tw4_def)

lemma raised_tab2: "raised (tab2 hr p df) = st_map (hour_filter hr df)"
  by (simp add: tab2_def Let_def showed_def split: option.splits)

lemma maps_tab2:
  "maps_shown (shown (tab2 hr p df))
     = (if st_map (hour_filter hr df) = None then [hour_filter hr df] else [])"
  by (simp add: tab2_def Let_def showed_def split: option.splits)

text \<open>
  C4. The hour filter keeps exactly the rows whose timestamp hour lies between the two
  bounds, both included. The geospatial tab hands that table to \<open>st.map\<close>: what \<open>st.map\<close>
  raises on it is what the tab raises, and the map of that table is the one map the tab
  shows when \<open>st.map\<close> raises nothing.
\<close>

theorem hour_filter_exact:
  "rows (hour_filter (lo, hi) df)
     = filter (\<lambda>r. lo \<le> dt_hour (tweet_created r) \<and> dt_hour (tweet_created r) \<le> hi) (rows df)
   \<and> columns (hour_filter (lo, hi) df) = columns df
   \<and> raised (tab2 (lo, hi) p df) = st_map (hour_filter (lo, hi) df)
   \<and> maps_shown (shown (tab2 (lo, hi) p df))
       = (if st_map (hour_filter (lo, hi) df) = None then [hour_filter (lo, hi) df] else [])"
  by (simp add: rows_hour_filter columns_hour_filter raised_tab2 maps_tab2)

theorem hour_filter_exact_witness:
  "rows (hour_filter (9, 17) (load_data sample_file)) = [load_row tw1, load_row tw4]
   \<and> maps_shown (shown (tab2 (9, 17) False (load_data sample_file)))
       = [hour_filter (9, 17) (load_data sample_file)]"
proof -
  note t = hour_filter_exact [of 9 17 "load_data sample_file" False]
  have r: "rows (hour_filter (9, 17) (load_data sample_file)) = [load_row tw1, load_row tw4]"
    using t by (simp add: rows_sample created_samples dt_hour_samples)
  have c: "columns (hour_filter (9, 17) (load_data sample_file)) = columns (load_data sample_file)"
    using t by simp
  have "st_map (hour_filter (9, 17) (load_data sample_file)) = None"
    by (simp add: st_map_def r c columns_sample lat_names_def lon_names_def coordinates_samples)
  with t r show ?thesis by simp
qed

section \<open>Aggregation\<close>

lemma sum_list_insort_key:
  fixes f :: "'a \<Rightarrow> nat"
  shows "sum_list (map f (insort_key k x xs)) = f x + sum_list (map f xs)"
  by (induction xs) auto

lemma sum_list_sort_key:
  fixes f :: "'a \<Rightarrow> nat"
  shows "sum_list (map f (sort_key k xs)) = sum_list (map f xs)"
  by (induction xs) (auto simp: sum_list_insort_key)

lemma distinct_map_insort_key:
  "distinct (map g (insort_key k x xs)) = (g x \<notin> g ` set xs \<and> distinct (map g xs))"
  by (induction xs) (auto simp: set_insort_key)

lemma distinct_map_sort_key: "distinct (map g (sort_key k xs)) = distinct (map g xs)"
  by (induction xs) (auto simp: distinct_map_insort_key)

lemma sum_count_distinct:
  assumes "distinct ys" and "set ys = set xs"
  shows "sum_list (map (count_list xs) ys) = length xs"
proof -
  have "sum_list (map (count_list xs) ys) = sum (count_list xs) (set ys)"
    using assms(1) by (rule sum_list_distinct_conv_sum_set)
  also have "\<dots> = length xs"
    using assms(2) by (simp add: sum_count_set)
  finally show ?thesis .
qed

lemma distinct_unique: "distinct (unique xs)"
  by (simp add: unique_def)

lemma set_unique: "set (unique xs) = set xs"
  by (simp add: unique_def)

lemma sum_value_counts: "sum_list (map snd (value_counts xs)) = length xs"
  by (simp add: value_counts_def sum_list_sort_key comp_def sum_count_distinct
        distinct_unique set_unique)

lemma sum_groupby_size: "sum_list (map snd (groupby_size ks)) = length ks"
  by (simp add: groupby_size_def comp_def sum_count_distinct)

lemma dropna_simps [simp]:
  "dropna [] = []"
  "dropna (None # xs) = dropna xs"
  "dropna (Some x # xs) = x # dropna xs"
  by (simp_all add: dropna_def List.map_filter_def)

lemma length_dropna: "length (dropna (map f xs)) = length (filter (\<lambda>x. f x \<noteq> None) xs)"
  by (induction xs) (auto split: option.splits)

lemma dropna_all_present: "\<forall>x \<in> set xs. f x \<noteq> None \<Longrightarrow> dropna (map f xs) = map (\<lambda>x. the (f x)) xs"
  by (induction xs) auto

lemma group_key_assign_time:
  "group_key (r\<lparr>time := Some t\<rparr>) = map_option (\<lambda>s. (t, s)) (airline_sentiment r)"
  by (simp add: group_key_def split: option.splits)

lemma group_keys_assign_time:
  "group_keys (assign_time g df)
     = dropna (map (\<lambda>r. map_option (\<lambda>s. (bucket g (tweet_created r), s)) (airline_sentiment r))
                 (rows df))"
  by (simp add: group_keys_def assign_time_def comp_def group_key_assign_time)

lemma length_group_keys_assign_time:
  "length (group_keys (assign_time g df))
     = length (filter (\<lambda>r. airline_sentiment r \<noteq> None) (rows df))"
  by (simp add: group_keys_assign_time length_dropna)

lemma keys_value_counts: "set (map fst (value_counts xs)) = set xs"
  by (auto simp: value_counts_def set_unique image_iff)

lemma distinct_keys_value_counts: "distinct (map fst (value_counts xs))"
  by (simp add: value_counts_def distinct_map_sort_key comp_def distinct_unique)

lemma distinct_keys_groupby_size: "distinct (map fst (groupby_size ks))"
  by (simp add: groupby_size_def comp_def)

lemma count_value_counts: "(v, c) \<in> set (value_counts xs) \<Longrightarrow> c = count_list xs v"
  by (auto simp: value_counts_def)

lemma count_groupby_size: "(k, c) \<in> set (groupby_size ks) \<Longrightarrow> c = count_list ks k"
  by (auto simp: groupby_size_def)


lemma length_rows_assign_time: "length (rows (assign_time g df)) = length (rows df)"
  by (simp add: assign_time_def)

lemma sum_sentiment_count:
  "sum_list (map snd (sentiment_count df))
     = length (filter (\<lambda>r. airline_sentiment r \<noteq> None) (rows df))"
  by (simp add: sentiment_count_def sum_value_counts length_dropna)

lemma sum_time_series:
  "sum_list (map snd (time_series (assign_time g df)))
     = length (filter (\<lambda>r. airline_sentiment r \<noteq> None) (rows df))"
  by (simp add: time_series_def sum_groupby_size length_group_keys_assign_time)

lemma filter_all_present:
  "\<forall>r \<in> set xs. P r \<Longrightarrow> filter P xs = xs"
  by (induction xs) auto

text \<open>
  C3. The counts of the groups add up to the number of rows of the table that have a
  sentiment label, for the grouping by sentiment and for the grouping by time bucket
  and sentiment (whatever the granularity): both aggregations leave out the rows whose
  label is missing. No key occurs twice among the groups, and assigning the time column
  keeps the number of rows. For a table in which every row has a sentiment label the
  counts add up to the number of its rows.
\<close>

theorem aggregation_counts_total:
  "sum_list (map snd (sentiment_count df))
     = length (filter (\<lambda>r. airline_sentiment r \<noteq> None) (rows df))
   \<and> distinct (map fst (sentiment_count df))
   \<and> sum_list (map snd (time_series (assign_time g df)))
     = length (filter (\<lambda>r. airline_sentiment r \<noteq> None) (rows df))
   \<and> distinct (map fst (time_series (assign_time g df)))
   \<and> length (rows (assign_time g df)) = length (rows df)
   \<and> ((\<forall>r \<in> set (rows df). airline_sentiment r \<noteq> None) \<longrightarrow>
        sum_list (map snd (sentiment_count df)) = length (rows df)
        \<and> sum_list (map snd (time_series (assign_time g df))) = length (rows df))"
proof -
  have "distinct (map fst (sentiment_count df))"
    by (simp add: sentiment_count_def distinct_keys_value_counts)
  moreover have "distinct (map fst (time_series (assign_time g df)))"
    by (simp add: time_series_def distinct_keys_groupby_size)
  moreover have "filter (\<lambda>r. airline_sentiment r \<noteq> None) (rows df) = rows df"
    if "\<forall>r \<in> set (rows df). airline_sentiment r \<noteq> None"
    using that by (rule filter_all_present)
  ultimately show ?thesis
    by (simp only: sum_sentiment_count sum_time_series length_rows_assign_time) simp
qed

lemma sentiment_samples:
  "airline_sentiment (load_row tw1) = Some ''negative''"
  "airline_sentiment (load_row tw2) = Some ''positive''"
  "airline_sentiment (load_row tw3) = Some ''neutral''"
  "airline_sentiment (load_row tw4) = Some ''negative''"
  "airline_sentiment (load_row tw5) = None"
  by (simp_all add: load_row_def tw1_def tw2_def tw3_def tw4_def tw5_def)

lemma created_tw5: "tweet_created (load_row tw5) = 1424480400000000000"
  by (simp add: load_row_def tw5_def tw3_def)

lemma date_tw5: "date (load_row tw5) = (2015, 2, 21)"
  by (simp add: load_row_def tw5_def tw3_def dt_date_samples)

lemma sentiment_count_sample:
  "sentiment_count (load_data sample_file)
     = [(''negative'', 2), (''positive'', 1), (''neutral'', 1)]"
  by (simp add: sentiment_count_def rows_sample sentiment_samples value_counts_def unique_def)

lemma time_series_sample:
  "time_series (assign_time ''Hourly'' (load_data sample_file))
     = [((Hour 1, ''neutral''), 1), ((Hour 9, ''negative''), 1),
        ((Hour 12, ''negative''), 1), ((Hour 23, ''positive''), 1)]"
  by (simp add: time_series_def group_keys_assign_time rows_sample sentiment_samples
        created_samples bucket_def dt_hour_samples groupby_size_def label_key_def)

theorem aggregation_counts_total_witness:
  "sentiment_count (load_data sample_file)
     = [(''negative'', 2), (''positive'', 1), (''neutral'', 1)]
   \<and> sum_list (map snd (sentiment_count (load_data sample_file))) = 4
   \<and> sum_list (map snd (time_series (assign_time ''Hourly'' (load_data sample_file)))) = 4"
proof -
  note t = aggregation_counts_total [of "load_data sample_file" "''Hourly''"]
  have "\<forall>r \<in> set (rows (load_data sample_file)). airline_sentiment r \<noteq> None"
    by (simp add: rows_sample sentiment_samples)
  with t have "sum_list (map snd (sentiment_count (load_data sample_file)))
                 = length (rows (load_data sample_file))
               \<and> sum_list (map snd (time_series (assign_time ''Hourly'' (load_data sample_file))))
                 = length (rows (load_data sample_file))"
    by blast
  then show ?thesis by (simp add: rows_sample sentiment_count_sample)
qed

lemma rows_unlabelled:
  "rows (load_data unlabelled_file) = [load_row tw1, load_row tw2, load_row tw5, load_row tw4]"
  by (simp add: load_data_def unlabelled_file_def sample_file_def)

lemma sentiment_count_unlabelled:
  "sentiment_count (load_data unlabelled_file) = [(''negative'', 2), (''positive'', 1)]"
  by (simp add: sentiment_count_def rows_unlabelled sentiment_samples value_counts_def
        unique_def)

lemma time_series_unlabelled:
  "time_series (assign_time ''Hourly'' (load_data unlabelled_file))
     = [((Hour 9, ''negative''), 1), ((Hour 12, ''negative''), 1), ((Hour 23, ''positive''), 1)]"
  by (simp add: time_series_def group_keys_assign_time rows_unlabelled sentiment_samples
        created_samples created_tw5 bucket_def dt_hour_samples groupby_size_def label_key_def)

section \<open>The order of the pass\<close>

lemma shown_then_run:
  "shown (then_run a b) = (if raised a = None then shown a @ shown b else shown a)"
  by (simp add: then_run_def)

lemma raised_then_run:
  "raised (then_run a b) = (if raised a = None then raised b else raised a)"
  by (simp add: then_run_def)

lemma showed_simps [simp]: "shown (showed es) = es" "raised (showed es) = None"
  by (simp_all add: showed_def)

lemma ran_simps [simp]:
  "shown (ran (Inr es)) = es" "raised (ran (Inr es)) = None"
  "shown (ran (Inl e)) = []" "raised (ran (Inl e)) = Some e"
  by (simp_all add: ran_def)

lemma tabs_data: "fst (tabs sw inp d) = assign_time (time_agg inp) d"
  by (simp add: tabs_def tab1_def Let_def)

lemma tabs_unfold:
  "snd (tabs sw inp d)
     = then_run (showed (snd (tab1 (viz_type inp) (time_agg inp) d)))
         (then_run (tab2 (hour_range inp) (show_preview inp) (assign_time (time_agg inp) d))
            (then_run (ran (tab3 (selected_airlines inp) (assign_time (time_agg inp) d)))
               (ran (tab4 sw (word_sentiment inp) (max_words inp) (colormap inp)
                       (assign_time (time_agg inp) d)))))"
  by (simp add: tabs_def tab1_def Let_def)

lemma panels_unfold:
  "panels cell sw inp d
     = then_run (snd (tabs sw inp d))
         (then_run (showed (sidebar_export cell (export_clicked inp) (assign_time (time_agg inp) d)))
                   (sidebar_about (image_fetch inp)))"
  by (simp add: panels_def case_prod_beta tabs_data)

lemma snd_tab1:
  "snd (tab1 v g d)
     = [PlotlyChart (if v = ''Bar plot'' then Bar (sentiment_count d) else Pie (sentiment_count d)),
        PlotlyChart (Line (time_series (assign_time g d)))]"
  by (simp add: tab1_def Let_def)

lemma shown_tabs_tab1:
  "take 2 (shown (snd (tabs sw inp d)))
     = [PlotlyChart (if viz_type inp = ''Bar plot'' then Bar (sentiment_count d)
                     else Pie (sentiment_count d)),
        PlotlyChart (Line (time_series (assign_time (time_agg inp) d)))]"
  by (simp add: tabs_unfold shown_then_run snd_tab1)

lemma shown_panels_tab1:
  "take 2 (shown (panels cell sw inp d))
     = [PlotlyChart (if viz_type inp = ''Bar plot'' then Bar (sentiment_count d)
                     else Pie (sentiment_count d)),
        PlotlyChart (Line (time_series (assign_time (time_agg inp) d)))]"
proof -
  have "2 \<le> length (shown (snd (tabs sw inp d)))"
    by (simp add: tabs_unfold shown_then_run snd_tab1)
  then have "take 2 (shown (panels cell sw inp d)) = take 2 (shown (snd (tabs sw inp d)))"
    by (simp add: panels_unfold shown_then_run)
  then show ?thesis
    by (simp only: shown_tabs_tab1)
qed

section \<open>Date selection\<close>

lemma script_malformed:
  "length (selected_dates inp) \<noteq> 2 \<Longrightarrow>
     script cell sw file inp
       = (panels cell sw inp (load_data file))
           \<lparr>shown := SidebarError ''Please select a date range''
                      # shown (panels cell sw inp (load_data file))\<rparr>"
  by (simp add: script_def apply_date_selection_def Let_def)

text \<open>
  C2, as the code has it. A selection that does not hold exactly two dates makes the
  sidebar show the message \<open>Please select a date range\<close>; the table is left as loaded,
  and the pass goes on with it: the outcome is the message followed by the outcome of
  all panels on the unfiltered table, beginning with the two charts of the overview.
\<close>

theorem malformed_selection_keeps_full_table:
  "length (selected_dates inp) \<noteq> 2 \<Longrightarrow>
     apply_date_selection (selected_dates inp) df
       = (df, [SidebarError ''Please select a date range''])
     \<and> script cell sw file inp
       = (panels cell sw inp (load_data file))
           \<lparr>shown := SidebarError ''Please select a date range''
                      # shown (panels cell sw inp (load_data file))\<rparr>
     \<and> take 3 (shown (script cell sw file inp))
       = [SidebarError ''Please select a date range'',
          PlotlyChart (if viz_type inp = ''Bar plot'' then Bar (sentiment_count (load_data file))
                       else Pie (sentiment_count (load_data file))),
          PlotlyChart (Line (time_series (assign_time (time_agg inp) (load_data file))))]"
proof -
  assume a: "length (selected_dates inp) \<noteq> 2"
  have "take 3 (shown (script cell sw file inp))
          = SidebarError ''Please select a date range''
            # take 2 (shown (panels cell sw inp (load_data file)))"
    by (simp add: script_malformed [OF a])
  then show ?thesis
    using a by (simp add: script_malformed shown_panels_tab1 apply_date_selection_def)
qed

lemma one_date_fields:
  "selected_dates one_date_inputs = [(2015, 2, 21)]"
  "viz_type one_date_inputs = ''Bar plot''"
  "time_agg one_date_inputs = ''Hourly''"
  by (simp_all add: one_date_inputs_def sample_inputs_def)

theorem malformed_selection_keeps_full_table_witness:
  "take 3 (shown (script sample_cell sample_stopwords sample_file one_date_inputs))
     = [SidebarError ''Please select a date range'',
        PlotlyChart (Bar [(''negative'', 2), (''positive'', 1), (''neutral'', 1)]),
        PlotlyChart (Line [((Hour 1, ''neutral''), 1), ((Hour 9, ''negative''), 1),
                           ((Hour 12, ''negative''), 1), ((Hour 23, ''positive''), 1)])]"
proof -
  have a: "length (selected_dates one_date_inputs) \<noteq> 2"
    by (simp add: one_date_fields)
  note t = malformed_selection_keeps_full_table
             [OF a, of "load_data sample_file" sample_cell sample_stopwords sample_file]
  show ?thesis
    by (simp add: t [THEN conjunct2, THEN conjunct2] one_date_fields
          sentiment_count_sample time_series_sample)
qed

lemma one_date_run:
  "take 2 (shown (script sample_cell sample_stopwords sample_file one_date_inputs))
     = [SidebarError ''Please select a date range'',
        PlotlyChart (Bar [(''negative'', 2), (''positive'', 1), (''neutral'', 1)])]"
proof -
  have a: "length (selected_dates one_date_inputs) \<noteq> 2"
    by (simp add: one_date_fields)
  have "take 2 (shown (script sample_cell sample_stopwords sample_file one_date_inputs))
          = SidebarError ''Please select a date range''
            # take 1 (take 2 (shown (panels sample_cell sample_stopwords one_date_inputs
                                       (load_data sample_file))))"
    by (simp add: script_malformed [OF a])
  then show ?thesis
    by (simp only: shown_panels_tab1 one_date_fields sentiment_count_sample) simp
qed

text \<open>
  The claim as stated fails: with one date picked, the date filter is not applied, the
  table stays the full table of four rows, and the panels are rendered from it (the bar
  chart of the overview counts all four tweets, those of 20 and 22 February included).
\<close>

theorem malformed_selection_counterexample:
  "length (selected_dates one_date_inputs) \<noteq> 2
   \<and> fst (apply_date_selection (selected_dates one_date_inputs) (load_data sample_file))
       = load_data sample_file
   \<and> length (rows (load_data sample_file)) = 4
   \<and> take 2 (shown (script sample_cell sample_stopwords sample_file one_date_inputs))
       = [SidebarError ''Please select a date range'',
          PlotlyChart (Bar [(''negative'', 2), (''positive'', 1), (''neutral'', 1)])]"
  by (simp add: one_date_fields apply_date_selection_def rows_sample one_date_run)

section \<open>The outcome of a pass\<close>

lemma script_unfold:
  "script cell sw file inp
     = (panels cell sw inp (fst (apply_date_selection (selected_dates inp) (load_data file))))
         \<lparr>shown := snd (apply_date_selection (selected_dates inp) (load_data file))
             @ shown (panels cell sw inp
                        (fst (apply_date_selection (selected_dates inp) (load_data file))))\<rparr>"
  by (simp add: script_def Let_def split: prod.splits)

lemma raised_avatar_about: "raised (sidebar_about f) = raised (avatar f)"
  by (simp add: sidebar_about_def raised_then_run)

lemma shown_about:
  "shown (sidebar_about f)
     = (if raised (avatar f) = None then shown (avatar f) @ [SidebarAbout, SidebarFeatures]
        else shown (avatar f))"
  by (simp add: sidebar_about_def shown_then_run)

lemma raised_panels:
  "raised (panels cell sw inp d)
     = (if raised (snd (tabs sw inp d)) = None then raised (avatar (image_fetch inp))
        else raised (snd (tabs sw inp d)))"
  by (simp add: panels_unfold raised_then_run raised_avatar_about)

lemma shown_panels:
  "shown (panels cell sw inp d)
     = shown (snd (tabs sw inp d))
       @ (if raised (snd (tabs sw inp d)) = None
          then sidebar_export cell (export_clicked inp) (assign_time (time_agg inp) d)
               @ shown (sidebar_about (image_fetch inp))
          else [])"
  by (simp add: panels_unfold shown_then_run)

lemma raised_script:
  "raised (script cell sw file inp)
     = (if raised (tabs_outcome sw file inp) = None then raised (avatar (image_fetch inp))
        else raised (tabs_outcome sw file inp))"
  by (simp add: script_unfold raised_panels tabs_outcome_def)

lemma shown_script:
  "shown (script cell sw file inp)
     = snd (apply_date_selection (selected_dates inp) (load_data file))
       @ shown (tabs_outcome sw file inp)
       @ (if raised (tabs_outcome sw file inp) = None
          then sidebar_export cell (export_clicked inp) (current_data file inp)
               @ shown (sidebar_about (image_fetch inp))
          else [])"
  by (simp add: script_unfold shown_panels tabs_outcome_def current_data_def)

lemma tabs_outcome_unfold:
  "tabs_outcome sw file inp
     = then_run (showed (snd (tab1 (viz_type inp) (time_agg inp)
                                 (fst (apply_date_selection (selected_dates inp) (load_data file))))))
         (then_run (tab2 (hour_range inp) (show_preview inp) (current_data file inp))
            (then_run (ran (tab3 (selected_airlines inp) (current_data file inp)))
               (ran (tab4 sw (word_sentiment inp) (max_words inp) (colormap inp)
                       (current_data file inp)))))"
  by (simp add: tabs_outcome_def tabs_unfold current_data_def)

lemma raised_ran: "raised (ran r) = (case r of Inl e \<Rightarrow> Some e | Inr es \<Rightarrow> None)"
  by (simp split: sum.splits)

lemma raised_tabs_outcome:
  "raised (tabs_outcome sw file inp)
     = (case st_map (hour_filter (hour_range inp) (current_data file inp)) of
          Some e \<Rightarrow> Some e
        | None \<Rightarrow>
            (case tab3 (selected_airlines inp) (current_data file inp) of
               Inl e \<Rightarrow> Some e
             | Inr out3 \<Rightarrow>
                 (case tab4 sw (word_sentiment inp) (max_words inp) (colormap inp)
                         (current_data file inp) of
                    Inl e \<Rightarrow> Some e
                  | Inr out4 \<Rightarrow> None)))"
  by (simp add: tabs_outcome_unfold raised_then_run raised_tab2 raised_ran
        split: option.splits sum.splits)

lemma tabs_outcome_independent:
  "tabs_outcome sw file (inp\<lparr>export_clicked := b\<rparr>) = tabs_outcome sw file inp"
  "tabs_outcome sw file (inp\<lparr>image_fetch := f\<rparr>) = tabs_outcome sw file inp"
  by (simp_all add: tabs_outcome_def tabs_def)

lemma current_data_independent:
  "current_data file (inp\<lparr>export_clicked := b\<rparr>) = current_data file inp"
  "current_data file (inp\<lparr>image_fetch := f\<rparr>) = current_data file inp"
  by (simp_all add: current_data_def)

section \<open>Running the pass\<close>

text \<open>
  On a table of zero rows the map tab draws the default map and the airline tab raises:
  the options of the multiselect are empty and its first default value is not among
  them. On the sample file with the sample selections the four tabs complete.
\<close>

lemma rows_current_data:
  "selected_dates inp = [lo, hi] \<Longrightarrow>
     rows (current_data file inp)
       = map (\<lambda>r. r\<lparr>time := Some (bucket (time_agg inp) (tweet_created r))\<rparr>)
           (filter (\<lambda>r. lo \<le> date r \<and> date r \<le> hi) (rows (load_data file)))"
  by (simp add: current_data_def assign_time_def apply_date_selection_def rows_date_filter)

lemma columns_selection:
  "columns (fst (apply_date_selection sel d)) = columns d"
  by (simp add: apply_date_selection_def columns_date_filter)

lemma columns_assign_time: "columns (assign_time g d) = set_column ''time'' (columns d)"
  by (simp add: assign_time_def)

lemma columns_load_data: "columns (load_data file) = set_column ''date'' (header file)"
  by (simp add: load_data_def)


lemma columns_current_data:
  "columns (current_data file inp) = set_column ''time'' (set_column ''date'' (header file))"
  by (simp add: current_data_def columns_assign_time columns_selection columns_load_data)






lemma header_sample:
  "header sample_file
     = [''tweet_id'', ''airline_sentiment'', ''airline'', ''text'', ''tweet_created'',
        ''latitude'', ''longitude'']"
  by (simp add: sample_file_def)

lemma columns_current_sample:
  "columns (current_data sample_file inp)
     = [''tweet_id'', ''airline_sentiment'', ''airline'', ''text'', ''tweet_created'',
        ''latitude'', ''longitude'', ''date'', ''time'']"
  by (simp add: columns_current_data header_sample set_column_def)

lemma airline_samples:
  "airline (load_row tw1) = ''United''" "airline (load_row tw2) = ''American''"
  "airline (load_row tw3) = ''Delta''" "airline (load_row tw4) = ''United''"
  "airline (load_row tw5) = ''Delta''"
  by (simp_all add: load_row_def tw1_def tw2_def tw3_def tw4_def tw5_def)

lemma text_samples:
  "tweet_text (load_row tw2) = ''Great flight thanks''"
  by (simp_all add: load_row_def tw2_def)

lemma rows_current_sample:
  "selected_dates inp = [(2015, 2, 20), (2015, 2, 22)] \<Longrightarrow> time_agg inp = ''Hourly'' \<Longrightarrow>
   rows (current_data sample_file inp)
     = [(load_row tw1)\<lparr>time := Some (Hour 9)\<rparr>, (load_row tw2)\<lparr>time := Some (Hour 23)\<rparr>,
        (load_row tw3)\<lparr>time := Some (Hour 1)\<rparr>, (load_row tw4)\<lparr>time := Some (Hour 12)\<rparr>]"
  by (simp add: rows_current_data rows_sample date_samples bucket_def created_samples
        dt_hour_samples)

lemma rows_map_sample:
  "selected_dates inp = [(2015, 2, 20), (2015, 2, 22)] \<Longrightarrow> time_agg inp = ''Hourly'' \<Longrightarrow>
   rows (hour_filter (9, 17) (current_data sample_file inp))
     = [(load_row tw1)\<lparr>time := Some (Hour 9)\<rparr>, (load_row tw4)\<lparr>time := Some (Hour 12)\<rparr>]"
  by (simp add: rows_hour_filter rows_current_sample created_samples dt_hour_samples)

lemma st_map_sample:
  "selected_dates inp = [(2015, 2, 20), (2015, 2, 22)] \<Longrightarrow> time_agg inp = ''Hourly'' \<Longrightarrow>
   st_map (hour_filter (9, 17) (current_data sample_file inp)) = None"
  by (simp add: st_map_def rows_map_sample columns_hour_filter columns_current_sample
        lat_names_def lon_names_def coordinates_samples)

lemma tab3_sample:
  "selected_dates inp = [(2015, 2, 20), (2015, 2, 22)] \<Longrightarrow> time_agg inp = ''Hourly'' \<Longrightarrow>
   tab3 [''United'', ''American'', ''Delta''] (current_data sample_file inp)
     = Inr [PlotlyChart (Subplots [(''United'', [(''negative'', 2)]),
                                   (''American'', [(''positive'', 1)]),
                                   (''Delta'', [(''neutral'', 1)])])]"
  by (simp add: tab3_def rows_current_sample airline_samples sentiment_samples unique_def
        default_airlines_def airline_counts_def value_counts_def)

lemma cloud_sample:
  "wordcloud_generate (sample_stopwords @ custom_stopwords) 150 ''Great flight thanks''
     = Inr [(''Great'', 1), (''flight'', 1), (''thanks'', 1)]"
  by (simp add: wordcloud_generate_def process_text_def findall_def is_word_char_def
        is_token_char_def strip_possessive_def lower_def lower_char_def isdigit_def
        sample_stopwords_def custom_stopwords_def value_counts_def unique_def Let_def)

lemma tab4_sample:
  "selected_dates inp = [(2015, 2, 20), (2015, 2, 22)] \<Longrightarrow> time_agg inp = ''Hourly'' \<Longrightarrow>
   tab4 sample_stopwords ''positive'' 150 ''viridis'' (current_data sample_file inp)
     = Inr [Pyplot ''viridis'' [(''Great'', 1), (''flight'', 1), (''thanks'', 1)],
            DownloadButton ''positive_wordcloud.png'' ''image/png'']"
  by (simp add: tab4_def rows_current_sample sentiment_samples text_samples cloud_sample)

lemma tabs_sample:
  assumes "selected_dates inp = [(2015, 2, 20), (2015, 2, 22)]" and "time_agg inp = ''Hourly''"
    and "hour_range inp = (9, 17)" and "selected_airlines inp = [''United'', ''American'', ''Delta'']"
    and "word_sentiment inp = ''positive''" and "max_words inp = 150"
    and "colormap inp = ''viridis''"
  shows "raised (tabs_outcome sample_stopwords sample_file inp) = None"
  using assms
  by (simp add: raised_tabs_outcome st_map_sample tab3_sample tab4_sample)

lemma preview_fields:
  "selected_dates preview_inputs = [(2015, 2, 20), (2015, 2, 22)]"
  "viz_type preview_inputs = ''Bar plot''"
  "time_agg preview_inputs = ''Hourly''"
  "hour_range preview_inputs = (9, 17)"
  "show_preview preview_inputs = True"
  "selected_airlines preview_inputs = [''United'', ''American'', ''Delta'']"
  "word_sentiment preview_inputs = ''positive''"
  "max_words preview_inputs = 150"
  "colormap preview_inputs = ''viridis''"
  "export_clicked preview_inputs = True"
  "image_fetch preview_inputs = Responded ok_response"
  by (simp_all add: preview_inputs_def sample_inputs_def)

lemma sample_fields:
  "selected_dates sample_inputs = [(2015, 2, 20), (2015, 2, 22)]"
  "viz_type sample_inputs = ''Bar plot''"
  "time_agg sample_inputs = ''Hourly''"
  "hour_range sample_inputs = (9, 17)"
  "show_preview sample_inputs = False"
  "selected_airlines sample_inputs = [''United'', ''American'', ''Delta'']"
  "word_sentiment sample_inputs = ''positive''"
  "max_words sample_inputs = 150"
  "colormap sample_inputs = ''viridis''"
  "export_clicked sample_inputs = False"
  "image_fetch sample_inputs = Responded ok_response"
  by (simp_all add: sample_inputs_def)

lemma tabs_preview: "raised (tabs_outcome sample_stopwords sample_file preview_inputs) = None"
  by (rule tabs_sample) (simp_all add: preview_fields)

lemma avatar_ok: "avatar (Responded ok_response) = showed [SidebarImage ''PNG'']"
  by (simp add: avatar_def raise_for_status_def ok_response_def sidebar_image_def ran_def)

lemma raised_sample:
  "raised (script sample_cell sample_stopwords sample_file preview_inputs) = None"
  by (simp add: raised_script tabs_preview preview_fields avatar_ok)

section \<open>Missing labels\<close>

lemma script_selected:
  "selected_dates inp = [lo, hi] \<Longrightarrow>
     shown (script cell sw file inp)
       = shown (panels cell sw inp (date_filter lo hi (load_data file)))"
  by (simp add: script_unfold apply_date_selection_def)

lemma rows_selected_unlabelled:
  "rows (date_filter (2015, 2, 20) (2015, 2, 22) (load_data unlabelled_file))
     = [load_row tw1, load_row tw2, load_row tw5, load_row tw4]"
  by (simp add: rows_date_filter rows_unlabelled date_samples date_tw5)

lemma sentiment_count_selected_unlabelled:
  "sentiment_count (date_filter (2015, 2, 20) (2015, 2, 22) (load_data unlabelled_file))
     = [(''negative'', 2), (''positive'', 1)]"
  by (simp add: sentiment_count_def rows_selected_unlabelled sentiment_samples value_counts_def
        unique_def)

lemma time_series_selected_unlabelled:
  "time_series (assign_time ''Hourly''
       (date_filter (2015, 2, 20) (2015, 2, 22) (load_data unlabelled_file)))
     = [((Hour 9, ''negative''), 1), ((Hour 12, ''negative''), 1), ((Hour 23, ''positive''), 1)]"
  by (simp add: time_series_def group_keys_assign_time rows_selected_unlabelled
        sentiment_samples created_samples created_tw5 bucket_def dt_hour_samples
        groupby_size_def label_key_def)

lemma overview_unlabelled:
  "take 2 (shown (script sample_cell sample_stopwords unlabelled_file sample_inputs))
     = [PlotlyChart (Bar [(''negative'', 2), (''positive'', 1)]),
        PlotlyChart (Line [((Hour 9, ''negative''), 1), ((Hour 12, ''negative''), 1),
                           ((Hour 23, ''positive''), 1)])]"
  by (simp only: script_selected [OF sample_fields(1)] shown_panels_tab1 sample_fields
        sentiment_count_selected_unlabelled time_series_selected_unlabelled) simp

text \<open>
  The claim as stated fails for a table with a missing sentiment label. The file has
  four records, the third without a label; with the whole range of dates selected the
  table of the pass has these four rows, and the two charts of the overview count three
  tweets.
\<close>

theorem missing_label_counterexample:
  "length (rows (load_data unlabelled_file)) = 4
   \<and> length (rows (date_filter (2015, 2, 20) (2015, 2, 22) (load_data unlabelled_file))) = 4
   \<and> sentiment_count (load_data unlabelled_file) = [(''negative'', 2), (''positive'', 1)]
   \<and> sum_list (map snd (sentiment_count (load_data unlabelled_file))) = 3
   \<and> time_series (assign_time ''Hourly'' (load_data unlabelled_file))
       = [((Hour 9, ''negative''), 1), ((Hour 12, ''negative''), 1), ((Hour 23, ''positive''), 1)]
   \<and> sum_list (map snd (time_series (assign_time ''Hourly'' (load_data unlabelled_file)))) = 3
   \<and> take 2 (shown (script sample_cell sample_stopwords unlabelled_file sample_inputs))
       = [PlotlyChart (Bar [(''negative'', 2), (''positive'', 1)]),
          PlotlyChart (Line [((Hour 9, ''negative''), 1), ((Hour 12, ''negative''), 1),
                             ((Hour 23, ''positive''), 1)])]"
  by (simp add: rows_unlabelled rows_selected_unlabelled sentiment_count_unlabelled
        time_series_unlabelled overview_unlabelled)

section \<open>Empty tables\<close>

lemma value_counts_Nil: "value_counts [] = []"
  by (simp add: value_counts_def unique_def)

lemma sentiment_count_empty: "rows df = [] \<Longrightarrow> sentiment_count df = []"
  by (simp add: sentiment_count_def value_counts_Nil)

lemma time_series_empty: "rows df = [] \<Longrightarrow> time_series (assign_time g df) = []"
  by (simp add: time_series_def group_keys_assign_time groupby_size_def)

lemma rows_assign_time_empty: "rows df = [] \<Longrightarrow> rows (assign_time g df) = []"
  by (simp add: assign_time_def)

text \<open>
  C5, as the code has it. For a table of zero rows both aggregations return an empty
  result, and the overview tab completes: it draws its two charts from the empty
  results. It shows a chart, not a notice.
\<close>

theorem overview_of_empty_table:
  "rows df = [] \<Longrightarrow>
     sentiment_count df = []
     \<and> time_series (assign_time g df) = []
     \<and> rows (assign_time g df) = []
     \<and> snd (tab1 v g df)
         = [PlotlyChart (if v = ''Bar plot'' then Bar [] else Pie []), PlotlyChart (Line [])]"
  by (simp add: sentiment_count_empty time_series_empty tab1_def Let_def rows_assign_time_empty)

lemma rows_gap_day: "rows gap_day = []"
  by (simp add: gap_day_def rows_date_filter gap_file_def sample_file_def load_data_def
        date_samples)

theorem overview_of_empty_table_witness:
  "rows gap_day = []
   \<and> snd (tab1 ''Pie chart'' ''Weekly'' gap_day) = [PlotlyChart (Pie []), PlotlyChart (Line [])]"
  using overview_of_empty_table [OF rows_gap_day, of "''Weekly''" "''Pie chart''"]
  by (simp add: rows_gap_day)

lemma rows_one_day: "rows one_day = [load_row tw3]"
  by (simp add: one_day_def rows_date_filter rows_sample date_samples)

lemma wordcloud_empty:
  "wordcloud_generate sw n [] = Inl (ValueError ''We need at least 1 word to plot a word cloud, got 0.'')"
  by (simp add: wordcloud_generate_def process_text_def findall_def value_counts_Nil)

lemma neutral_fields:
  "selected_dates neutral_inputs = [(2015, 2, 20), (2015, 2, 22)]"
  "time_agg neutral_inputs = ''Hourly''"
  "hour_range neutral_inputs = (9, 17)"
  "selected_airlines neutral_inputs = [''United'', ''American'', ''Delta'']"
  "word_sentiment neutral_inputs = ''neutral''"
  "max_words neutral_inputs = 150"
  "colormap neutral_inputs = ''viridis''"
  by (simp_all add: neutral_inputs_def sample_inputs_def)

lemma rows_current_unlabelled:
  "rows (current_data unlabelled_file neutral_inputs)
     = [(load_row tw1)\<lparr>time := Some (Hour 9)\<rparr>, (load_row tw2)\<lparr>time := Some (Hour 23)\<rparr>,
        (load_row tw5)\<lparr>time := Some (Hour 1)\<rparr>, (load_row tw4)\<lparr>time := Some (Hour 12)\<rparr>]"
  by (simp add: rows_current_data [OF neutral_fields(1)] neutral_fields rows_unlabelled
        date_samples date_tw5 bucket_def created_samples created_tw5 dt_hour_samples)

lemma columns_current_unlabelled:
  "columns (current_data unlabelled_file neutral_inputs)
     = [''tweet_id'', ''airline_sentiment'', ''airline'', ''text'', ''tweet_created'',
        ''latitude'', ''longitude'', ''date'', ''time'']"
  by (simp add: columns_current_data unlabelled_file_def header_sample set_column_def)

lemma st_map_unlabelled:
  "st_map (hour_filter (9, 17) (current_data unlabelled_file neutral_inputs)) = None"
  by (simp add: st_map_def rows_hour_filter rows_current_unlabelled created_samples
        created_tw5 dt_hour_samples columns_hour_filter columns_current_unlabelled
        lat_names_def lon_names_def coordinates_samples)

lemma tab3_unlabelled:
  "tab3 [''United'', ''American'', ''Delta''] (current_data unlabelled_file neutral_inputs)
     = Inr [PlotlyChart (Subplots [(''United'', [(''negative'', 2)]),
                                   (''American'', [(''positive'', 1)]),
                                   (''Delta'', [])])]"
  by (simp add: tab3_def rows_current_unlabelled airline_samples sentiment_samples unique_def
        default_airlines_def airline_counts_def value_counts_def)

lemma tab4_unlabelled:
  "tab4 sample_stopwords ''neutral'' 150 ''viridis'' (current_data unlabelled_file neutral_inputs)
     = Inl (ValueError ''We need at least 1 word to plot a word cloud, got 0.'')"
  by (simp add: tab4_def rows_current_unlabelled sentiment_samples wordcloud_empty)

lemma raised_unlabelled:
  "raised (script sample_cell sample_stopwords unlabelled_file neutral_inputs)
     = Some (ValueError ''We need at least 1 word to plot a word cloud, got 0.'')"
  by (simp add: raised_script raised_tabs_outcome neutral_fields st_map_unlabelled
        tab3_unlabelled tab4_unlabelled)

text \<open>
  The claim as stated fails. On the table of the day without tweets the overview shows
  two charts with no data and no notice; on a table with no positive tweet the word
  cloud of the positive class is not drawn and no notice is shown: the generator raises.
  So it does in a pass: on the file whose only neutral tweet has lost its label, with
  the neutral class selected, the pass comes to the word cloud and ends there.
\<close>

theorem empty_table_counterexample:
  "rows gap_day = []
   \<and> snd (tab1 ''Bar plot'' ''Hourly'' gap_day) = [PlotlyChart (Bar []), PlotlyChart (Line [])]
   \<and> filter (\<lambda>r. airline_sentiment r = Some ''positive'') (rows one_day) = []
   \<and> tab4 sample_stopwords ''positive'' 150 ''viridis'' one_day
       = Inl (ValueError ''We need at least 1 word to plot a word cloud, got 0.'')
   \<and> filter (\<lambda>r. airline_sentiment r = Some ''neutral'')
        (rows (current_data unlabelled_file neutral_inputs)) = []
   \<and> raised (script sample_cell sample_stopwords unlabelled_file neutral_inputs)
       = Some (ValueError ''We need at least 1 word to plot a word cloud, got 0.'')"
  by (simp add: rows_gap_day sentiment_count_empty time_series_empty tab1_def Let_def
        rows_one_day sentiment_samples tab4_def wordcloud_empty rows_current_unlabelled
        raised_unlabelled)

section \<open>Consumers of the table\<close>























section \<open>Export\<close>







section \<open>Avatar\<close>

lemma avatar_raised:
  "avatar (Raised e) = \<lparr>shown = [SidebarError (''Error loading image: '' @ str_of e)], raised = None\<rparr>"
  by (simp add: avatar_def showed_def)

lemma avatar_http_error:
  "400 \<le> status_code r \<Longrightarrow> status_code r < 600 \<Longrightarrow>
     avatar (Responded r)
       = \<lparr>shown = [SidebarError (''Error loading image: '' @ show_nat (status_code r)
            @ (if status_code r < 500 then '' Client Error: '' else '' Server Error: '')
            @ reason r @ '' for url: '' @ url r)], raised = None\<rparr>"
  by (simp add: avatar_def raise_for_status_def str_of_def showed_def)

lemma avatar_other_status:
  "status_code r < 400 \<or> 600 \<le> status_code r \<Longrightarrow>
     raise_for_status r = None \<and> avatar (Responded r) = ran (sidebar_image (content r))"
  by (auto simp: avatar_def raise_for_status_def)

lemma about_after_message:
  "avatar f = \<lparr>shown = [SidebarError m], raised = None\<rparr> \<Longrightarrow>
     sidebar_about f = \<lparr>shown = [SidebarError m, SidebarAbout, SidebarFeatures], raised = None\<rparr>"
  by (simp add: sidebar_about_def then_run_def showed_def)

lemma script_ends_with_about:
  "raised (tabs_outcome sw file inp) = None \<Longrightarrow>
     \<exists>before. shown (script cell sw file inp) = before @ shown (sidebar_about (image_fetch inp))"
proof -
  assume "raised (tabs_outcome sw file inp) = None"
  then have "shown (script cell sw file inp)
               = (snd (apply_date_selection (selected_dates inp) (load_data file))
                  @ shown (tabs_outcome sw file inp)
                  @ sidebar_export cell (export_clicked inp) (current_data file inp))
                 @ shown (sidebar_about (image_fetch inp))"
    by (simp add: shown_script)
  then show ?thesis by blast
qed

text \<open>
  C8, as the code has it. An exception raised by the request (a connection error, a
  timeout) and a response with a status from 400 to 599 are caught: the sidebar shows
  \<open>Error loading image:\<close> followed by the text of the exception, which for a status
  error begins with the status code, in place of the image, nothing is raised and the
  rest of the sidebar follows. A response with any other status is no failure for the
  code: no status error is raised and the body is handed to the image display. The
  outcome of the request has no influence on the tabs, and a pass whose tabs have
  completed raises what the avatar section raises and ends with what the avatar section
  and the rest of the sidebar show.
\<close>

theorem fetch_failure_shown:
  "avatar (Raised e)
     = \<lparr>shown = [SidebarError (''Error loading image: '' @ str_of e)], raised = None\<rparr>
   \<and> sidebar_about (Raised e)
     = \<lparr>shown = [SidebarError (''Error loading image: '' @ str_of e), SidebarAbout,
                 SidebarFeatures], raised = None\<rparr>
   \<and> (400 \<le> status_code r \<and> status_code r < 600 \<longrightarrow>
        avatar (Responded r)
          = \<lparr>shown = [SidebarError (''Error loading image: '' @ show_nat (status_code r)
               @ (if status_code r < 500 then '' Client Error: '' else '' Server Error: '')
               @ reason r @ '' for url: '' @ url r)], raised = None\<rparr>
        \<and> sidebar_about (Responded r)
          = \<lparr>shown = [SidebarError (''Error loading image: '' @ show_nat (status_code r)
               @ (if status_code r < 500 then '' Client Error: '' else '' Server Error: '')
               @ reason r @ '' for url: '' @ url r), SidebarAbout, SidebarFeatures],
             raised = None\<rparr>)
   \<and> (status_code r < 400 \<or> 600 \<le> status_code r \<longrightarrow>
        raise_for_status r = None \<and> avatar (Responded r) = ran (sidebar_image (content r)))
   \<and> tabs_outcome sw file (inp\<lparr>image_fetch := f\<rparr>) = tabs_outcome sw file inp
   \<and> (raised (tabs_outcome sw file inp) = None \<longrightarrow>
        raised (script cell sw file inp) = raised (avatar (image_fetch inp))
        \<and> (\<exists>before. shown (script cell sw file inp)
               = before @ shown (sidebar_about (image_fetch inp))))"
proof -
  have "sidebar_about (Raised e)
     = \<lparr>shown = [SidebarError (''Error loading image: '' @ str_of e), SidebarAbout,
                 SidebarFeatures], raised = None\<rparr>"
    by (rule about_after_message) (rule avatar_raised)
  moreover have "sidebar_about (Responded r)
          = \<lparr>shown = [SidebarError (''Error loading image: '' @ show_nat (status_code r)
               @ (if status_code r < 500 then '' Client Error: '' else '' Server Error: '')
               @ reason r @ '' for url: '' @ url r), SidebarAbout, SidebarFeatures],
             raised = None\<rparr>"
    if "400 \<le> status_code r" and "status_code r < 600"
    by (rule about_after_message) (rule avatar_http_error [OF that])
  moreover have "raise_for_status r = None \<and> avatar (Responded r) = ran (sidebar_image (content r))"
    if "status_code r < 400 \<or> 600 \<le> status_code r"
    using that by (rule avatar_other_status)
  moreover have "raised (script cell sw file inp) = raised (avatar (image_fetch inp))
        \<and> (\<exists>before. shown (script cell sw file inp)
               = before @ shown (sidebar_about (image_fetch inp)))"
    if "raised (tabs_outcome sw file inp) = None"
    using that script_ends_with_about [OF that, of cell] by (simp add: raised_script)
  ultimately show ?thesis
    using avatar_raised [of e] avatar_http_error [of r] tabs_outcome_independent(2) [of sw "file" f inp]
    by blast
qed

lemma show_404: "show_nat 404 = ''404''"
  by (simp add: show_nat.simps digit_def)

lemma not_found_fields:
  "image_fetch not_found_inputs = Responded not_found"
  "export_clicked not_found_inputs = True"
  by (simp_all add: not_found_inputs_def preview_inputs_def sample_inputs_def)

lemma tabs_not_found:
  "raised (tabs_outcome sample_stopwords sample_file not_found_inputs) = None"
  by (simp add: not_found_inputs_def tabs_outcome_independent tabs_preview)

theorem fetch_failure_shown_witness:
  "sidebar_about (Raised timed_out)
     = \<lparr>shown = [SidebarError ''Error loading image: Read timed out.'', SidebarAbout,
                 SidebarFeatures], raised = None\<rparr>
   \<and> sidebar_about (Responded not_found)
     = \<lparr>shown = [SidebarError
                   ''Error loading image: 404 Client Error: Not Found for url: https://a.test/u/1'',
                 SidebarAbout, SidebarFeatures], raised = None\<rparr>
   \<and> raised (script sample_cell sample_stopwords sample_file not_found_inputs) = None
   \<and> (\<exists>before. shown (script sample_cell sample_stopwords sample_file not_found_inputs)
          = before @ [SidebarError
                   ''Error loading image: 404 Client Error: Not Found for url: https://a.test/u/1'',
                 SidebarAbout, SidebarFeatures])"
proof -
  note t = fetch_failure_shown
             [of timed_out not_found sample_stopwords sample_file _ not_found_inputs sample_cell]
  have a: "sidebar_about (Raised timed_out)
     = \<lparr>shown = [SidebarError ''Error loading image: Read timed out.'', SidebarAbout,
                 SidebarFeatures], raised = None\<rparr>"
    using t by (simp add: timed_out_def str_of_def)
  have s: "400 \<le> status_code not_found \<and> status_code not_found < 600"
    by (simp add: not_found_def)
  with t have "avatar (Responded not_found)
          = \<lparr>shown = [SidebarError (''Error loading image: '' @ show_nat (status_code not_found)
               @ (if status_code not_found < 500 then '' Client Error: '' else '' Server Error: '')
               @ reason not_found @ '' for url: '' @ url not_found)], raised = None\<rparr>
        \<and> sidebar_about (Responded not_found)
          = \<lparr>shown = [SidebarError (''Error loading image: '' @ show_nat (status_code not_found)
               @ (if status_code not_found < 500 then '' Client Error: '' else '' Server Error: '')
               @ reason not_found @ '' for url: '' @ url not_found), SidebarAbout,
               SidebarFeatures], raised = None\<rparr>"
    by blast
  then have b: "avatar (Responded not_found)
     = \<lparr>shown = [SidebarError
                   ''Error loading image: 404 Client Error: Not Found for url: https://a.test/u/1''],
        raised = None\<rparr>"
    and c: "sidebar_about (Responded not_found)
     = \<lparr>shown = [SidebarError
                   ''Error loading image: 404 Client Error: Not Found for url: https://a.test/u/1'',
                 SidebarAbout, SidebarFeatures], raised = None\<rparr>"
    by (simp_all add: not_found_def show_404)
  from t tabs_not_found have
    "raised (script sample_cell sample_stopwords sample_file not_found_inputs)
       = raised (avatar (image_fetch not_found_inputs))
     \<and> (\<exists>before. shown (script sample_cell sample_stopwords sample_file not_found_inputs)
            = before @ shown (sidebar_about (image_fetch not_found_inputs)))"
    by blast
  then have d: "raised (script sample_cell sample_stopwords sample_file not_found_inputs) = None"
    and e: "\<exists>before. shown (script sample_cell sample_stopwords sample_file not_found_inputs)
          = before @ [SidebarError
                   ''Error loading image: 404 Client Error: Not Found for url: https://a.test/u/1'',
                 SidebarAbout, SidebarFeatures]"
    by (simp_all add: not_found_fields b c)
  show ?thesis
    using a c d e by blast
qed

lemma multiple_choices_fields:
  "image_fetch multiple_choices_inputs = Responded multiple_choices"
  "export_clicked multiple_choices_inputs = True"
  "selected_dates multiple_choices_inputs = [(2015, 2, 20), (2015, 2, 22)]"
  by (simp_all add: multiple_choices_inputs_def preview_inputs_def sample_inputs_def)

lemma tabs_multiple_choices:
  "tabs_outcome sample_stopwords sample_file multiple_choices_inputs
     = tabs_outcome sample_stopwords sample_file preview_inputs"
  by (simp add: multiple_choices_inputs_def tabs_outcome_independent)

lemma current_multiple_choices:
  "current_data sample_file multiple_choices_inputs = current_data sample_file preview_inputs"
  by (simp add: multiple_choices_inputs_def current_data_independent)

lemma avatar_multiple_choices:
  "avatar (Responded multiple_choices) = \<lparr>shown = [], raised = Some UnidentifiedImageError\<rparr>"
  by (simp add: avatar_def raise_for_status_def multiple_choices_def sidebar_image_def ran_def)

text \<open>
  The claim as stated fails for a status that is neither a success nor in 400 to 599.
  The response 300 with a page as its body raises no status error, and no message is
  shown for it; its body is handed to the image display, which raises. In a pass on the
  sample file the tabs complete, the download is offered, and the pass ends in the
  avatar section: it shows no message and not the rest of the sidebar.
\<close>

theorem other_status_counterexample:
  "status_code multiple_choices = 300
   \<and> content multiple_choices = OtherBytes ''<html>''
   \<and> raise_for_status multiple_choices = None
   \<and> avatar (Responded multiple_choices)
       = \<lparr>shown = [], raised = Some UnidentifiedImageError\<rparr>
   \<and> sidebar_about (Responded multiple_choices)
       = \<lparr>shown = [], raised = Some UnidentifiedImageError\<rparr>
   \<and> image_fetch multiple_choices_inputs = Responded multiple_choices
   \<and> raised (tabs_outcome sample_stopwords sample_file multiple_choices_inputs) = None
   \<and> raised (script sample_cell sample_stopwords sample_file multiple_choices_inputs)
       = Some UnidentifiedImageError
   \<and> shown (script sample_cell sample_stopwords sample_file multiple_choices_inputs)
       = shown (tabs_outcome sample_stopwords sample_file multiple_choices_inputs)
         @ [SidebarDownload
              (encode_utf8 (to_csv sample_cell (current_data sample_file multiple_choices_inputs)))
              ''airline_tweets.csv'' ''text/csv'']"
  by (simp add: multiple_choices_fields avatar_multiple_choices sidebar_about_def then_run_def
        raised_script shown_script tabs_multiple_choices tabs_preview current_multiple_choices
        sidebar_export_def apply_date_selection_def preview_fields)
     (simp add: multiple_choices_def raise_for_status_def)

section \<open>Word cloud\<close>

lemma set_value_counts: "fst ` set (value_counts xs) = set xs"
  by (auto simp: value_counts_def set_unique image_iff)

lemma process_text_words:
  "(w, c) \<in> set (process_text stopwords s) \<Longrightarrow> lower w \<notin> lower ` set stopwords"
proof -
  assume "(w, c) \<in> set (process_text stopwords s)"
  then have "w \<in> fst ` set (process_text stopwords s)"
    by force
  then show ?thesis
    by (auto simp: process_text_def Let_def set_value_counts)
qed

lemma wordcloud_entries:
  assumes "wordcloud_generate stopwords n s = Inr cloud"
  shows "length cloud \<le> n"
    and "(w, c) \<in> set cloud \<Longrightarrow> lower w \<notin> lower ` set stopwords"
    and "(w, c) \<in> set cloud \<Longrightarrow> w \<notin> set stopwords"
proof -
  from assms have cloud: "cloud = take n (process_text stopwords s)"
    by (auto simp: wordcloud_generate_def Let_def split: if_splits)
  show "length cloud \<le> n"
    by (simp add: cloud)
  show l: "lower w \<notin> lower ` set stopwords" if "(w, c) \<in> set cloud"
    using that process_text_words [of w c stopwords s]
    by (auto simp: cloud dest: in_set_takeD)
  show "w \<notin> set stopwords" if "(w, c) \<in> set cloud"
    using l [OF that] by blast
qed


text \<open>
  C6. Whenever the text tab draws a cloud, the cloud has at most \<open>max_words\<close> entries,
  and no entry is a word of the standard stopword list or one of \<open>http\<close>, \<open>https\<close>,
  \<open>co\<close> and \<open>RT\<close>; nor is it one of these words in another letter case. This holds
  for every standard list, every sentiment selected and every table.
\<close>

theorem wordcloud_excludes_stopwords:
  assumes "tab4 STOPWORDS ws n cm data = Inr out" and "ws \<noteq> []"
  shows "\<exists>cloud. out = [Pyplot cm cloud, DownloadButton (ws @ ''_wordcloud.png'') ''image/png'']
           \<and> length cloud \<le> n
           \<and> (\<forall>(w, c) \<in> set cloud.
                  w \<notin> set STOPWORDS \<and> w \<notin> {''http'', ''https'', ''co'', ''RT''}
                  \<and> lower w \<notin> lower ` (set STOPWORDS \<union> {''http'', ''https'', ''co'', ''RT''}))"
proof -
  let ?txt = "join '' '' (map tweet_text (filter (\<lambda>r. airline_sentiment r = Some ws) (rows data)))"
  from assms obtain cloud where
    g: "wordcloud_generate (STOPWORDS @ custom_stopwords) n ?txt = Inr cloud" and
    out: "out = [Pyplot cm cloud, DownloadButton (ws @ ''_wordcloud.png'') ''image/png'']"
    by (auto simp: tab4_def Let_def split: sum.splits)
  have s: "set (STOPWORDS @ custom_stopwords) = set STOPWORDS \<union> {''http'', ''https'', ''co'', ''RT''}"
    by (simp add: custom_stopwords_def)
  have "length cloud \<le> n"
    using g by (rule wordcloud_entries)
  moreover have "\<forall>(w, c) \<in> set cloud.
                  w \<notin> set STOPWORDS \<and> w \<notin> {''http'', ''https'', ''co'', ''RT''}
                  \<and> lower w \<notin> lower ` (set STOPWORDS \<union> {''http'', ''https'', ''co'', ''RT''})"
  proof (clarify, intro conjI)
    fix w c assume m: "(w, c) \<in> set cloud"
    from wordcloud_entries(3) [OF g m] s
    show "w \<notin> set STOPWORDS" and "w \<notin> {''http'', ''https'', ''co'', ''RT''}"
      by blast+
    from wordcloud_entries(2) [OF g m] s
    show "lower w \<notin> lower ` (set STOPWORDS \<union> {''http'', ''https'', ''co'', ''RT''})"
      by simp
  qed
  ultimately show ?thesis
    using out by blast
qed

lemma text_samples_negative:
  "tweet_text (load_row tw1) = ''RT @united: it'' @ [CHR 0x27] @ ''s a late flight http://t.co/x''"
  "tweet_text (load_row tw4) = ''late again''"
  by (simp_all add: load_row_def tw1_def tw4_def)

lemma cloud_negative:
  "wordcloud_generate (sample_stopwords @ custom_stopwords) 2
     (''RT @united: it'' @ [CHR 0x27] @ ''s a late flight http://t.co/x late again'')
     = Inr [(''late'', 2), (''united'', 1)]"
  by (simp add: wordcloud_generate_def process_text_def findall_def is_word_char_def
        is_token_char_def strip_possessive_def lower_def lower_char_def isdigit_def
        sample_stopwords_def custom_stopwords_def value_counts_def unique_def Let_def)

lemma tab4_negative:
  "tab4 sample_stopwords ''negative'' 2 ''viridis'' (load_data sample_file)
     = Inr [Pyplot ''viridis'' [(''late'', 2), (''united'', 1)],
            DownloadButton ''negative_wordcloud.png'' ''image/png'']"
  using cloud_negative
  by (simp add: tab4_def rows_sample sentiment_samples text_samples_negative)

theorem wordcloud_excludes_stopwords_witness:
  "tab4 sample_stopwords ''negative'' 2 ''viridis'' (load_data sample_file)
     = Inr [Pyplot ''viridis'' [(''late'', 2), (''united'', 1)],
            DownloadButton ''negative_wordcloud.png'' ''image/png'']
   \<and> length [(''late'', 2 :: nat), (''united'', 1)] \<le> 2
   \<and> ''late'' \<notin> set sample_stopwords \<and> ''united'' \<notin> set sample_stopwords"
proof -
  have n: "''negative'' \<noteq> []" by simp
  from wordcloud_excludes_stopwords [OF tab4_negative n]
  have "length [(''late'', 2 :: nat), (''united'', 1)] \<le> 2
        \<and> ''late'' \<notin> set sample_stopwords \<and> ''united'' \<notin> set sample_stopwords"
    by auto
  then show ?thesis
    using tab4_negative by simp
qed

section \<open>Calendar\<close>

text \<open>
  A year adds its days to the days before it, and 400 years add 146097 days.
\<close>

lemma days_before_year_Suc:
  assumes "1 \<le> y"
  shows "days_before_year (y + 1) = days_before_year y + days_in_year y"
proof -
  from assms obtain p where y: "y = Suc p"
    by (cases y) auto
  define a b c where "a = p div 4" and "b = p div 100" and "c = p div 400"
  have d: "b \<le> a"
    unfolding a_def b_def by (rule div_le_mono2) simp_all
  have e4: "Suc p div 4 = (if Suc p mod 4 = 0 then Suc a else a)"
    and e100: "Suc p div 100 = (if Suc p mod 100 = 0 then Suc b else b)"
    and e400: "Suc p div 400 = (if Suc p mod 400 = 0 then Suc c else c)"
    by (simp_all add: div_Suc a_def b_def c_def)
  have m1: "Suc p mod 4 = 0" if "Suc p mod 100 = 0"
  proof -
    from that have "100 dvd Suc p" by (simp add: mod_eq_0_iff_dvd)
    moreover have "(4::nat) dvd 100" by simp
    ultimately have "4 dvd Suc p" by (rule dvd_trans [rotated])
    then show ?thesis by (simp add: mod_eq_0_iff_dvd)
  qed
  have m2: "Suc p mod 100 = 0" if "Suc p mod 400 = 0"
  proof -
    from that have "400 dvd Suc p" by (simp add: mod_eq_0_iff_dvd)
    moreover have "(100::nat) dvd 400" by simp
    ultimately have "100 dvd Suc p" by (rule dvd_trans [rotated])
    then show ?thesis by (simp add: mod_eq_0_iff_dvd)
  qed
  have l: "days_before_year (y + 1) = 365 * Suc p + Suc p div 4 + Suc p div 400 - Suc p div 100"
    by (simp add: y days_before_year_def)
  have r: "days_before_year y = 365 * p + a + c - b"
    by (simp add: y days_before_year_def a_def b_def c_def)
  have g: "365 * Suc p + Suc p div 4 + Suc p div 400 - Suc p div 100
             = 365 * p + a + c - b + days_in_year (Suc p)"
  proof -
    consider (c400) "Suc p mod 400 = 0"
      | (c100) "Suc p mod 400 \<noteq> 0" "Suc p mod 100 = 0"
      | (c4) "Suc p mod 100 \<noteq> 0" "Suc p mod 4 = 0"
      | (c1) "Suc p mod 4 \<noteq> 0"
      by blast
    then show ?thesis
    proof cases
      case c400
      then have "Suc p mod 100 = 0" "Suc p mod 4 = 0" using m1 m2 by simp_all
      with c400 d show ?thesis
        unfolding e4 e100 e400 days_in_year_def is_leap_def by simp
    next
      case c100
      then have "Suc p mod 4 = 0" using m1 by auto
      with c100 d show ?thesis
        unfolding e4 e100 e400 days_in_year_def is_leap_def by simp
    next
      case c4
      then have "Suc p mod 400 \<noteq> 0" by (metis m2)
      with c4 d show ?thesis
        unfolding e4 e100 e400 days_in_year_def is_leap_def by simp
    next
      case c1
      then have "Suc p mod 100 \<noteq> 0" "Suc p mod 400 \<noteq> 0" by (metis m1, metis m1 m2)
      with c1 d show ?thesis
        unfolding e4 e100 e400 days_in_year_def is_leap_def by simp
    qed
  qed
  show ?thesis
    unfolding l r using g by (simp add: y)
qed

lemma days_before_year_cycle:
  assumes "1 \<le> y"
  shows "days_before_year (y + 400) = days_before_year y + 146097"
proof -
  from assms obtain p where y: "y = Suc p"
    by (cases y) auto
  define a b c where "a = p div 4" and "b = p div 100" and "c = p div 400"
  have d: "b \<le> a"
    unfolding a_def b_def by (rule div_le_mono2) simp_all
  have "(p + 4 * 100) div 4 = 100 + p div 4" "(p + 100 * 4) div 100 = 4 + p div 100"
    "(p + 400 * 1) div 400 = 1 + p div 400"
    by (rule div_mult_self2, simp)+
  then have e: "(p + 400) div 4 = a + 100" "(p + 400) div 100 = b + 4" "(p + 400) div 400 = c + 1"
    by (simp_all add: a_def b_def c_def)
  have s: "y + 400 - 1 = p + 400"
    by (simp add: y)
  have "days_before_year (y + 400)
          = 365 * (p + 400) + (p + 400) div 4 + (p + 400) div 400 - (p + 400) div 100"
    unfolding days_before_year_def s ..
  also have "\<dots> = 365 * p + a + c - b + 146097"
    unfolding e using d by simp
  also have "365 * p + a + c - b = days_before_year y"
    by (simp add: y days_before_year_def a_def b_def c_def)
  finally show ?thesis .
qed


lemma days_before_year_mono: "a \<le> b \<Longrightarrow> days_before_year a \<le> days_before_year b"
proof (rule lift_Suc_mono_le [of days_before_year])
  fix n show "days_before_year n \<le> days_before_year (Suc n)"
  proof (cases n)
    case 0
    then show ?thesis by (simp add: days_before_year_def)
  next
    case (Suc k)
    then show ?thesis using days_before_year_Suc [of n] by simp
  qed
qed

lemma days_before_year_lower: "365 * (y - 1) \<le> days_before_year y"
proof -
  have "(y - 1) div 100 \<le> (y - 1) div 4"
    by (rule div_le_mono2) simp_all
  then show ?thesis
    unfolding days_before_year_def by linarith
qed

text \<open>
  What \<open>year_day\<close> computes: the year \<open>y'\<close> and the day \<open>r\<close> of that year with as many days
  before them as before day \<open>n\<close> of year \<open>y\<close>.
\<close>

lemma year_day_spec:
  "1 \<le> y \<Longrightarrow> year_day n y = (y', r) \<Longrightarrow>
     y \<le> y' \<and> r < days_in_year y' \<and> days_before_year y' + r = days_before_year y + n"
proof (induction n y rule: year_day.induct)
  case (1 n y)
  show ?case
  proof (cases "146097 \<le> n")
    case True
    with "1.prems" have "year_day (n - 146097) (y + 400) = (y', r)"
      by (simp add: year_day.simps [of n y])
    with "1.IH"(1) [OF True] have
      "y + 400 \<le> y' \<and> r < days_in_year y'
       \<and> days_before_year y' + r = days_before_year (y + 400) + (n - 146097)"
      by simp
    with True "1.prems"(1) days_before_year_cycle [of y] show ?thesis
      by simp
  next
    case False
    show ?thesis
    proof (cases "days_in_year y \<le> n")
      case True
      with False "1.prems" have "year_day (n - days_in_year y) (y + 1) = (y', r)"
        by (simp add: year_day.simps [of n y])
      with "1.IH"(2) [OF False True] have
        "y + 1 \<le> y' \<and> r < days_in_year y'
         \<and> days_before_year y' + r = days_before_year (y + 1) + (n - days_in_year y)"
        by simp
      with True "1.prems"(1) days_before_year_Suc [of y] show ?thesis
        by simp
    next
      case nt: False
      with False "1.prems" have "y' = y" "r = n"
        by (simp_all add: year_day.simps [of n y])
      with nt show ?thesis by simp
    qed
  qed
qed


lemma year_day_mono:
  assumes "1 \<le> y" and "n1 \<le> n2"
  shows "year_day n1 y \<le> year_day n2 y"
proof -
  obtain y1 r1 where a1: "year_day n1 y = (y1, r1)" by (cases "year_day n1 y")
  obtain y2 r2 where a2: "year_day n2 y = (y2, r2)" by (cases "year_day n2 y")
  note s1 = year_day_spec [OF assms(1) a1] and s2 = year_day_spec [OF assms(1) a2]
  have le: "days_before_year y1 + r1 \<le> days_before_year y2 + r2"
    using s1 s2 assms(2) by simp
  have "y1 \<le> y2"
  proof (rule ccontr)
    assume "\<not> y1 \<le> y2"
    then have "y2 + 1 \<le> y1" by simp
    then have "days_before_year (y2 + 1) \<le> days_before_year y1"
      by (rule days_before_year_mono)
    moreover have "1 \<le> y2" using s2 assms(1) by simp
    then have "days_before_year (y2 + 1) = days_before_year y2 + days_in_year y2"
      by (rule days_before_year_Suc)
    ultimately show False
      using le s2 by simp
  qed
  moreover have "r1 \<le> r2" if "y1 = y2"
    using le that by simp
  ultimately show ?thesis
    unfolding a1 a2 by (cases "y1 = y2") (simp_all add: less_eq_prod_def)
qed

lemma year_day_year_bound:
  assumes "year_day n 1 = (y, r)"
  shows "y \<le> n div 365 + 1"
proof -
  have "days_before_year y + r = n"
    using year_day_spec [OF _ assms] by (simp add: days_before_year_def)
  then have "365 * (y - 1) \<le> n"
    using days_before_year_lower [of y] by simp
  then have "y - 1 \<le> n div 365"
    by (simp add: less_eq_div_iff_mult_less_eq mult.commute)
  then show ?thesis by simp
qed

text \<open>
  The same for \<open>month_day\<close>: it never goes back, it is monotone in the day, and within a
  year it ends on a month up to 12 and a day up to 31.
\<close>

lemma month_day_step:
  "m < 12 \<Longrightarrow> days_in_month y m \<le> n \<Longrightarrow>
     month_day y n m = month_day y (n - days_in_month y m) (m + 1)"
  by (subst month_day.simps) simp

lemma month_day_stop:
  "\<not> (m < 12 \<and> days_in_month y m \<le> n) \<Longrightarrow> month_day y n m = (m, n + 1)"
  by (subst month_day.simps) auto

lemma month_day_fst_ge: "m \<le> fst (month_day y n m)"
proof (induction y n m rule: month_day.induct)
  case (1 y n m)
  show ?case
  proof (cases "m < 12 \<and> days_in_month y m \<le> n")
    case True
    with "1.IH" have "m + 1 \<le> fst (month_day y (n - days_in_month y m) (m + 1))"
      by simp
    with True show ?thesis
      by (simp add: month_day.simps [of y n m])
  next
    case False
    then show ?thesis
      by (simp add: month_day_stop)
  qed
qed

lemma month_day_mono: "n1 \<le> n2 \<Longrightarrow> month_day y n1 m \<le> month_day y n2 m"
proof (induction y n1 m arbitrary: n2 rule: month_day.induct)
  case (1 y n1 m)
  show ?case
  proof (cases "m < 12 \<and> days_in_month y m \<le> n1")
    case True
    with "1.prems" have c2: "m < 12 \<and> days_in_month y m \<le> n2" by simp
    from "1.prems" have "n1 - days_in_month y m \<le> n2 - days_in_month y m" by simp
    with "1.IH" [OF True] have
      "month_day y (n1 - days_in_month y m) (m + 1) \<le> month_day y (n2 - days_in_month y m) (m + 1)"
      by simp
    with True c2 show ?thesis
      by (simp add: month_day.simps [of y n1 m] month_day.simps [of y n2 m])
  next
    case False
    then have e1: "month_day y n1 m = (m, n1 + 1)"
      by (rule month_day_stop)
    show ?thesis
    proof (cases "m < 12 \<and> days_in_month y m \<le> n2")
      case True
      then have "month_day y n2 m = month_day y (n2 - days_in_month y m) (m + 1)"
        by (simp add: month_day.simps [of y n2 m])
      moreover have "m + 1 \<le> fst (month_day y (n2 - days_in_month y m) (m + 1))"
        by (rule month_day_fst_ge)
      ultimately have "m < fst (month_day y n2 m)" by simp
      then show ?thesis
        unfolding e1 by (cases "month_day y n2 m") (simp add: less_eq_prod_def)
    next
      case f2: False
      then have "month_day y n2 m = (m, n2 + 1)"
        by (rule month_day_stop)
      with e1 "1.prems" show ?thesis by (simp add: less_eq_prod_def)
    qed
  qed
qed


lemma days_in_month_le: "days_in_month y m \<le> 31"
  by (simp add: days_in_month_def)

lemma days_from_month_step:
  "m < 13 \<Longrightarrow> days_from_month y m = days_in_month y m + days_from_month y (m + 1)"
  by (simp add: days_from_month_def upt_conv_Cons)

lemma days_from_month_last: "days_from_month y 12 = 31"
  by (simp add: days_from_month_def upt_rec days_in_month_def)

lemma days_from_month_first: "days_from_month y 1 = days_in_year y"
proof -
  have "[1..<13] = [1, 2, 3, 4, 5, 6, 7, 8, 9, 10, 11, 12 :: nat]"
    by (simp add: upt_rec)
  then show ?thesis
    by (simp add: days_from_month_def days_in_month_def days_in_year_def)
qed

lemma month_day_bounds:
  "m \<le> 12 \<Longrightarrow> n < days_from_month y m \<Longrightarrow>
     fst (month_day y n m) \<le> 12 \<and> 1 \<le> snd (month_day y n m) \<and> snd (month_day y n m) \<le> 31"
proof (induction y n m rule: month_day.induct)
  case (1 y n m)
  show ?case
  proof (cases "m < 12 \<and> days_in_month y m \<le> n")
    case True
    then have "days_in_month y m \<le> n" and "m < 13"
      by simp_all
    moreover from \<open>m < 13\<close> "1.prems" have
      "n < days_in_month y m + days_from_month y (m + 1)"
      by (simp only: days_from_month_step [of m y])
    ultimately have "n - days_in_month y m < days_from_month y (m + 1)"
      by linarith
    moreover from True have "m + 1 \<le> 12" by simp
    ultimately have
      "fst (month_day y (n - days_in_month y m) (m + 1)) \<le> 12
       \<and> 1 \<le> snd (month_day y (n - days_in_month y m) (m + 1))
       \<and> snd (month_day y (n - days_in_month y m) (m + 1)) \<le> 31"
      by (rule "1.IH" [OF True, rotated])
    moreover from True have "month_day y n m = month_day y (n - days_in_month y m) (m + 1)"
      by (simp add: month_day.simps [of y n m])
    ultimately show ?thesis
      by (simp only:)
  next
    case False
    then have e: "month_day y n m = (m, n + 1)"
      by (rule month_day_stop)
    have "n < 31"
    proof (cases "m < 12")
      case True
      with False have "n < days_in_month y m" by simp
      with days_in_month_le [of y m] show ?thesis by simp
    next
      case f: False
      with "1.prems" have "m = 12" by simp
      with "1.prems" show ?thesis by (simp add: days_from_month_last)
    qed
    with "1.prems" show ?thesis by (simp add: e)
  qed
qed

text \<open>Every ordinal is a valid date; up to the year 9999 for ordinals below 3000000.\<close>

lemma fromordinal_valid:
  assumes "fromordinal n = (y, m, d)"
  shows "1 \<le> y" and "1 \<le> m" and "m \<le> 12" and "1 \<le> d" and "d \<le> 31"
    and "n \<le> 3000000 \<Longrightarrow> y \<le> 9999"
proof -
  obtain r where yd: "year_day (n - 1) 1 = (y, r)" and md: "month_day y r 1 = (m, d)"
    using assms by (auto simp: fromordinal_def split: prod.splits)
  from year_day_spec [OF _ yd] have r: "r < days_in_year y" and "1 \<le> y"
    by simp_all
  then show "1 \<le> y" by simp
  from r have "r < days_from_month y 1"
    by (simp only: days_from_month_first)
  with month_day_bounds [of 1 r y] md show "m \<le> 12" "1 \<le> d" "d \<le> 31"
    by simp_all
  from month_day_fst_ge [of 1 y r] md show "1 \<le> m"
    by simp
  show "y \<le> 9999" if "n \<le> 3000000"
  proof -
    from year_day_year_bound [OF yd] have "y \<le> (n - 1) div 365 + 1" .
    also have "(n - 1) div 365 \<le> 3000000 div 365"
      using that by (intro div_le_mono) simp
    finally show ?thesis by simp
  qed
qed

text \<open>
  Later ordinals are later dates.
\<close>

lemma fromordinal_mono: "n1 \<le> n2 \<Longrightarrow> fromordinal n1 \<le> fromordinal n2"
proof -
  assume "n1 \<le> n2"
  then have le: "year_day (n1 - 1) 1 \<le> year_day (n2 - 1) 1"
    by (intro year_day_mono) simp_all
  obtain y1 r1 where a1: "year_day (n1 - 1) 1 = (y1, r1)" by (cases "year_day (n1 - 1) 1")
  obtain y2 r2 where a2: "year_day (n2 - 1) 1 = (y2, r2)" by (cases "year_day (n2 - 1) 1")
  obtain m1 d1 where b1: "month_day y1 r1 1 = (m1, d1)" by (cases "month_day y1 r1 1")
  obtain m2 d2 where b2: "month_day y2 r2 1 = (m2, d2)" by (cases "month_day y2 r2 1")
  have f1: "fromordinal n1 = (y1, m1, d1)" and f2: "fromordinal n2 = (y2, m2, d2)"
    by (simp_all only: fromordinal_def a1 a2 b1 b2 prod.case)
  show ?thesis
  proof (cases "y1 = y2")
    case True
    with le a1 a2 have "r1 \<le> r2" by (simp add: less_eq_prod_def)
    then have "month_day y1 r1 1 \<le> month_day y1 r2 1" by (rule month_day_mono)
    with True b1 b2 show ?thesis
      unfolding f1 f2 by (simp add: less_eq_prod_def)
  next
    case False
    with le a1 a2 have "y1 < y2" by (auto simp: less_eq_prod_def)
    then show ?thesis
      unfolding f1 f2 by (simp add: less_eq_prod_def)
  qed
qed

section \<open>Order of the rendered dates\<close>

text \<open>
  Numbers padded to a fixed width sort as text in the order of the numbers, and so do
  the texts of dates up to the year 9999.
\<close>

lemma of_char_digit: "k < 10 \<Longrightarrow> of_char (digit k) = 48 + k"
proof -
  assume "k < 10"
  then have "k = 0 \<or> k = 1 \<or> k = 2 \<or> k = 3 \<or> k = 4 \<or> k = 5 \<or> k = 6 \<or> k = 7
             \<or> k = 8 \<or> k = 9"
    by arith
  then show ?thesis
    by (auto simp: digit_def)
qed

lemma digit_less: "a < 10 \<Longrightarrow> b < 10 \<Longrightarrow> digit a < digit b \<longleftrightarrow> a < b"
  by (simp add: less_char_def of_char_digit)

lemma digit_eq: "a < 10 \<Longrightarrow> b < 10 \<Longrightarrow> digit a = digit b \<longleftrightarrow> a = b"
proof -
  assume a: "a < 10" and b: "b < 10"
  have "digit a = digit b \<longleftrightarrow> (of_char (digit a) :: nat) = of_char (digit b)"
    by simp
  also have "\<dots> \<longleftrightarrow> a = b"
    using a b by (simp add: of_char_digit)
  finally show ?thesis .
qed

lemma quot_rem_less:
  fixes a b :: nat
  assumes "a < b" and "0 < c"
  shows "a div c < b div c \<or> a div c = b div c \<and> a mod c < b mod c"
proof (cases "a div c < b div c")
  case True
  then show ?thesis by simp
next
  case False
  moreover from assms(1) have "a div c \<le> b div c"
    by (simp add: div_le_mono)
  ultimately have e: "a div c = b div c"
    by simp
  have "a = c * (a div c) + a mod c" "b = c * (b div c) + b mod c"
    by simp_all
  with assms(1) e have "a mod c < b mod c"
    by (metis add_less_cancel_left)
  with e show ?thesis by simp
qed

lemma pad2_less: "a < b \<Longrightarrow> b < 100 \<Longrightarrow> pad2 a < pad2 b"
proof -
  assume l: "a < b" and u: "b < 100"
  then have d: "a div 10 < 10" "b div 10 < 10" "a mod 10 < 10" "b mod 10 < 10"
    by simp_all
  from l u have m: "a div 10 mod 10 = a div 10" "b div 10 mod 10 = b div 10"
    by simp_all
  from l have "a div 10 < b div 10 \<or> a div 10 = b div 10 \<and> a mod 10 < b mod 10"
    by (intro quot_rem_less) simp_all
  then show ?thesis
    by (simp add: pad2_def m digit_less digit_eq d)
qed

lemma pad2_le: "a \<le> b \<Longrightarrow> b < 100 \<Longrightarrow> pad2 a \<le> pad2 b"
  using pad2_less [of a b] by (cases "a = b") (simp_all add: less_le)

lemma length_pad2: "length (pad2 n) = 2"
  by (simp add: pad2_def)

lemma append_less_same_length:
  "length a = length b \<Longrightarrow> a < b \<Longrightarrow> a @ x < b @ (y :: 'a :: linorder list)"
  by (induction a b rule: list_induct2) auto

lemma append_same_le: "p @ x \<le> p @ y \<longleftrightarrow> x \<le> (y :: 'a :: linorder list)"
  by (induction p) auto

lemma pad4_split: "pad4 n = pad2 (n div 100) @ pad2 (n mod 100)"
proof -
  have a: "n div 1000 = n div 100 div 10"
    using div_mult2_eq [of n 100 10] by simp
  have "n mod (10 * 10) = 10 * (n div 10 mod 10) + n mod 10"
    by (rule mod_mult2_eq)
  then have b: "n mod 100 div 10 = n div 10 mod 10"
    by simp
  have c: "n mod 100 mod 10 = n mod 10"
    by (rule mod_mod_cancel) simp
  show ?thesis
    by (simp add: pad4_def pad2_def a b c)
qed

lemma pad4_less: "a < b \<Longrightarrow> b < 10000 \<Longrightarrow> pad4 a < pad4 b"
proof -
  assume l: "a < b" and u: "b < 10000"
  then have h: "b div 100 < 100" "b mod 100 < 100"
    by simp_all
  from l have "a div 100 < b div 100 \<or> a div 100 = b div 100 \<and> a mod 100 < b mod 100"
    by (intro quot_rem_less) simp_all
  then show ?thesis
  proof
    assume "a div 100 < b div 100"
    then have "pad2 (a div 100) < pad2 (b div 100)"
      using h by (intro pad2_less)
    then show ?thesis
      unfolding pad4_split by (intro append_less_same_length) (simp_all add: length_pad2)
  next
    assume e: "a div 100 = b div 100 \<and> a mod 100 < b mod 100"
    then have "pad2 (a mod 100) < pad2 (b mod 100)"
      using h by (intro pad2_less) simp_all
    then show ?thesis
      unfolding pad4_split using e by (simp add: less_le append_same_le)
  qed
qed

lemma length_pad4: "length (pad4 n) = 4"
  by (simp add: pad4_def)


lemma date_le_cases:
  "(y1 :: nat, m1 :: nat, d1 :: nat) \<le> (y2, m2, d2) \<Longrightarrow>
     y1 < y2 \<or> y1 = y2 \<and> (m1 < m2 \<or> m1 = m2 \<and> d1 \<le> d2)"
  by (simp add: less_eq_prod_def) arith

lemma length_isoformat: "length (isoformat dt) = 10"
  by (cases dt) (simp add: isoformat_def length_pad2 length_pad4)

lemma isoformat_mono:
  assumes "(y1, m1, d1) \<le> (y2, m2, d2)" and "y2 \<le> 9999" and "m2 \<le> 12" and "d2 \<le> 31"
  shows "isoformat (y1, m1, d1) \<le> isoformat (y2, m2, d2)"
proof -
  consider (year) "y1 < y2" | (month) "y1 = y2" "m1 < m2" | (day) "y1 = y2" "m1 = m2" "d1 \<le> d2"
    using date_le_cases [OF assms(1)] by blast
  then show ?thesis
  proof cases
    case year
    with assms(2) have "pad4 y1 < pad4 y2"
      by (intro pad4_less) simp_all
    then have "pad4 y1 @ (''-'' @ pad2 m1 @ ''-'' @ pad2 d1)
               < pad4 y2 @ (''-'' @ pad2 m2 @ ''-'' @ pad2 d2)"
      by (intro append_less_same_length) (simp_all add: length_pad4)
    then show ?thesis
      by (simp add: isoformat_def less_le)
  next
    case month
    with assms(3) have "pad2 m1 < pad2 m2"
      by (intro pad2_less) simp_all
    then have "pad2 m1 @ (''-'' @ pad2 d1) < pad2 m2 @ (''-'' @ pad2 d2)"
      by (intro append_less_same_length) (simp_all add: length_pad2)
    then have "(pad4 y2 @ ''-'') @ (pad2 m1 @ (''-'' @ pad2 d1))
               \<le> (pad4 y2 @ ''-'') @ (pad2 m2 @ (''-'' @ pad2 d2))"
      unfolding append_same_le by (simp add: less_le)
    with month show ?thesis
      by (simp add: isoformat_def)
  next
    case day
    with assms(4) have "pad2 d1 \<le> pad2 d2"
      by (intro pad2_le) simp_all
    then have "(pad4 y2 @ ''-'' @ pad2 m2 @ ''-'') @ pad2 d1
               \<le> (pad4 y2 @ ''-'' @ pad2 m2 @ ''-'') @ pad2 d2"
      unfolding append_same_le .
    with day show ?thesis
      by (simp add: isoformat_def)
  qed
qed

lemma isoformat_fromordinal_mono:
  assumes "n1 \<le> n2" and "n2 \<le> 3000000"
  shows "isoformat (fromordinal n1) \<le> isoformat (fromordinal n2)"
proof -
  obtain y1 m1 d1 where f1: "fromordinal n1 = (y1, m1, d1)" by (cases "fromordinal n1")
  obtain y2 m2 d2 where f2: "fromordinal n2 = (y2, m2, d2)" by (cases "fromordinal n2")
  from fromordinal_mono [OF assms(1)] have "(y1, m1, d1) \<le> (y2, m2, d2)"
    by (simp only: f1 f2)
  moreover note fromordinal_valid(6) [OF f2 assms(2)] fromordinal_valid(3) [OF f2]
    fromordinal_valid(5) [OF f2]
  ultimately show ?thesis
    unfolding f1 f2 by (rule isoformat_mono)
qed

text \<open>
  The Monday of the week of a day is monotone in the day.
\<close>

lemma week_start_mono: "n1 \<le> n2 \<Longrightarrow> week_start n1 \<le> week_start n2"
proof (cases n1)
  case 0
  then show ?thesis by (simp add: week_start_def)
next
  case (Suc k1)
  assume le: "n1 \<le> n2"
  have s: "week_start n + 6 = 7 * ((n + 6) div 7)" if "0 < n" for n
  proof -
    have "n + 6 = 7 * ((n + 6) div 7) + (n + 6) mod 7"
      by simp
    moreover have "(n + 6) mod 7 \<le> n"
    proof -
      from that obtain k where k: "n = Suc k" by (cases n) auto
      then have "(n + 6) mod 7 = k mod 7"
        by (simp add: mod_Suc)
      also have "\<dots> \<le> k" by simp
      finally show ?thesis using k by simp
    qed
    ultimately show ?thesis
      unfolding week_start_def weekday_def by linarith
  qed
  from le have "(n1 + 6) div 7 \<le> (n2 + 6) div 7"
    by (intro div_le_mono) simp
  moreover from Suc le have "0 < n1" "0 < n2" by simp_all
  ultimately have "week_start n1 + 6 \<le> week_start n2 + 6"
    by (simp only: s)
  then show ?thesis by simp
qed

lemma week_start_le: "week_start n \<le> n"
  by (simp add: week_start_def)

section \<open>Order of the time buckets\<close>

text \<open>
  The day, the date and the week text of a timestamp are monotone in the timestamp; the
  hour is monotone among the timestamps of one day.
\<close>

lemma dt_ordinal_mono: "t1 \<le> t2 \<Longrightarrow> dt_ordinal t1 \<le> dt_ordinal t2"
proof -
  assume "t1 \<le> t2"
  then have "t1 div ns_per_day \<le> t2 div ns_per_day"
    by (rule zdiv_mono1) (simp add: ns_per_day_def)
  then show ?thesis
    by (simp add: dt_ordinal_def)
qed

lemma dt_ordinal_range:
  assumes "in_ts_range t"
  shows "0 < t div ns_per_day + 719163" and "dt_ordinal t \<le> 825914"
proof -
  from assms have "- 9223372036854775807 \<le> t" "t \<le> 9223372036854775807"
    by (simp_all add: in_ts_range_def)
  then have "(- 9223372036854775807) div ns_per_day \<le> t div ns_per_day"
    "t div ns_per_day \<le> 9223372036854775807 div ns_per_day"
    by (intro zdiv_mono1; simp add: ns_per_day_def)+
  then have b: "- 106752 \<le> t div ns_per_day" "t div ns_per_day \<le> 106751"
    by (simp_all add: ns_per_day_def)
  then show "0 < t div ns_per_day + 719163" by simp
  from b show "dt_ordinal t \<le> 825914"
    by (simp add: dt_ordinal_def)
qed

lemma dt_hour_le: "dt_hour t \<le> 23"
proof -
  have "t mod ns_per_day \<le> ns_per_day - 1"
    by (simp add: ns_per_day_def)
  then have "t mod ns_per_day div ns_per_hour \<le> (ns_per_day - 1) div ns_per_hour"
    by (rule zdiv_mono1) (simp add: ns_per_hour_def)
  then show ?thesis
    by (simp add: dt_hour_def ns_per_day_def ns_per_hour_def)
qed

lemma dt_hour_mono_same_day:
  assumes "t1 \<le> t2" and "t1 div ns_per_day = t2 div ns_per_day"
  shows "dt_hour t1 \<le> dt_hour t2"
proof -
  have "t1 = ns_per_day * (t1 div ns_per_day) + t1 mod ns_per_day"
    "t2 = ns_per_day * (t2 div ns_per_day) + t2 mod ns_per_day"
    by simp_all
  with assms have "t1 mod ns_per_day \<le> t2 mod ns_per_day"
    by (metis add_le_cancel_left)
  then have "t1 mod ns_per_day div ns_per_hour \<le> t2 mod ns_per_day div ns_per_hour"
    by (rule zdiv_mono1) (simp add: ns_per_hour_def)
  then show ?thesis
    by (simp add: dt_hour_def)
qed

lemma dt_ordinal_same_day:
  assumes "in_ts_range t1" and "in_ts_range t2" and "dt_ordinal t1 = dt_ordinal t2"
  shows "t1 div ns_per_day = t2 div ns_per_day"
  using assms(3) dt_ordinal_range(1) [OF assms(1)] dt_ordinal_range(1) [OF assms(2)]
  by (simp add: dt_ordinal_def)

lemma dt_date_mono: "t1 \<le> t2 \<Longrightarrow> dt_date t1 \<le> dt_date t2"
  unfolding dt_date_def by (intro fromordinal_mono dt_ordinal_mono)

lemma week_label_mono:
  assumes "t1 \<le> t2" and "in_ts_range t2"
  shows "week_label t1 \<le> week_label t2"
proof -
  define s1 s2 where "s1 = week_start (dt_ordinal t1)" and "s2 = week_start (dt_ordinal t2)"
  have le: "s1 \<le> s2"
    unfolding s1_def s2_def by (intro week_start_mono dt_ordinal_mono assms(1))
  have "s2 \<le> dt_ordinal t2"
    unfolding s2_def by (rule week_start_le)
  with dt_ordinal_range(2) [OF assms(2)] have u: "s2 \<le> 3000000" "s2 + 6 \<le> 3000000"
    by simp_all
  from le have le6: "s1 + 6 \<le> s2 + 6" by simp
  have a: "isoformat (fromordinal s1) \<le> isoformat (fromordinal s2)"
    using le u(1) by (rule isoformat_fromordinal_mono)
  have b: "isoformat (fromordinal (s1 + 6)) \<le> isoformat (fromordinal (s2 + 6))"
    using le6 u(2) by (rule isoformat_fromordinal_mono)
  have "isoformat (fromordinal s1) @ (''/'' @ isoformat (fromordinal (s1 + 6)))
          \<le> isoformat (fromordinal s2) @ (''/'' @ isoformat (fromordinal (s2 + 6)))"
  proof (cases "isoformat (fromordinal s1) = isoformat (fromordinal s2)")
    case True
    from b have "''/'' @ isoformat (fromordinal (s1 + 6)) \<le> ''/'' @ isoformat (fromordinal (s2 + 6))"
      by simp
    then show ?thesis
      unfolding True append_same_le .
  next
    case False
    with a have "isoformat (fromordinal s1) < isoformat (fromordinal s2)"
      by simp
    then have "isoformat (fromordinal s1) @ (''/'' @ isoformat (fromordinal (s1 + 6)))
          < isoformat (fromordinal s2) @ (''/'' @ isoformat (fromordinal (s2 + 6)))"
      by (intro append_less_same_length) (simp_all add: length_isoformat)
    then show ?thesis by simp
  qed
  then show ?thesis
    by (simp add: week_label_def Let_def s1_def s2_def)
qed

text \<open>
  Different ordinals are different dates: a date determines the number of days before
  it.
\<close>

lemma month_day_spec:
  "m \<le> 12 \<Longrightarrow> month_day y n m = (m', d) \<Longrightarrow>
     m' \<le> 12 \<and> n + days_from_month y m' + 1 = d + days_from_month y m"
proof (induction y n m rule: month_day.induct)
  case (1 y n m)
  show ?case
  proof (cases "m < 12 \<and> days_in_month y m \<le> n")
    case True
    then have "month_day y n m = month_day y (n - days_in_month y m) (m + 1)"
      by (simp add: month_day_step)
    with "1.prems" have e: "month_day y (n - days_in_month y m) (m + 1) = (m', d)"
      by simp
    from True have "m + 1 \<le> 12" by simp
    from "1.IH" [OF True this e] have
      i: "m' \<le> 12" "n - days_in_month y m + days_from_month y m' + 1 = d + days_from_month y (m + 1)"
      by simp_all
    from True have "days_from_month y m = days_in_month y m + days_from_month y (m + 1)"
      by (intro days_from_month_step) simp
    with i True show ?thesis
      by linarith
  next
    case False
    then have "month_day y n m = (m, n + 1)"
      by (rule month_day_stop)
    with "1.prems" show ?thesis by simp
  qed
qed

lemma fromordinal_inj:
  assumes "1 \<le> n1" and "1 \<le> n2" and "fromordinal n1 = fromordinal n2"
  shows "n1 = n2"
proof -
  obtain y m d where f1: "fromordinal n1 = (y, m, d)" by (cases "fromordinal n1")
  with assms(3) have f2: "fromordinal n2 = (y, m, d)" by simp
  have ord: "days_before_year y + (d + days_from_month y 1) = n + days_from_month y m"
    if "fromordinal n = (y, m, d)" and "1 \<le> n" for n
  proof -
    from that(1) obtain r where yd: "year_day (n - 1) 1 = (y, r)" and md: "month_day y r 1 = (m, d)"
      by (auto simp: fromordinal_def split: prod.splits)
    from year_day_spec [OF _ yd] have "days_before_year y + r = n - 1"
      by (simp add: days_before_year_def)
    moreover from month_day_spec [OF _ md] have
      "r + days_from_month y m + 1 = d + days_from_month y 1"
      by simp
    ultimately show ?thesis
      using that(2) by linarith
  qed
  from ord [OF f1 assms(1)] ord [OF f2 assms(2)] show ?thesis
    by simp
qed

lemma dt_date_same_day:
  assumes "in_ts_range t1" and "in_ts_range t2" and "dt_date t1 = dt_date t2"
  shows "t1 div ns_per_day = t2 div ns_per_day"
proof -
  from dt_ordinal_range(1) [OF assms(1)] dt_ordinal_range(1) [OF assms(2)]
  have "1 \<le> dt_ordinal t1" "1 \<le> dt_ordinal t2"
    by (simp_all add: dt_ordinal_def)
  with assms(3) have "dt_ordinal t1 = dt_ordinal t2"
    unfolding dt_date_def by (intro fromordinal_inj)
  with assms(1,2) show ?thesis
    by (rule dt_ordinal_same_day)
qed

lemma dt_date_valid:
  assumes "dt_date t = (y, m, d)"
  shows "1 \<le> m \<and> m \<le> 12 \<and> 1 \<le> d \<and> d \<le> 31"
  using fromordinal_valid(2-5) [OF assms [unfolded dt_date_def]] by simp

lemma length_week_label: "length (week_label t) = 21"
  by (simp add: week_label_def Let_def length_isoformat)

lemma times_assign_time:
  "list_all (\<lambda>r. time r = Some (bucket g (tweet_created r))) (rows (assign_time g df))"
  by (simp add: assign_time_def list_all_iff)

lemma label_key_simps:
  "label_key (Hour h) \<le> label_key (Hour h') \<longleftrightarrow> h \<le> h'"
  "label_key (Day d) \<le> label_key (Day d') \<longleftrightarrow> d \<le> d'"
  "label_key (Week w) \<le> label_key (Week w') \<longleftrightarrow> w \<le> w'"
  by (auto simp: label_key_def dest: less_imp_le)

text \<open>
  C7, as the code has it. Every row gets exactly one label, for every granularity: the
  hour of its timestamp, from 0 to 23, for \<open>Hourly\<close>; the calendar date of its
  timestamp for \<open>Daily\<close>; the text of its Monday-to-Sunday week, 21 characters of the form
  \<open>YYYY-MM-DD/YYYY-MM-DD\<close>, for \<open>Weekly\<close>. For two timestamps in chronological
  order the daily labels and the weekly labels sort in the same order. The hourly labels
  are hours of the day: they sort in chronological order for timestamps of the same
  calendar date.
\<close>

theorem bucket_labels_ordered:
  assumes "in_ts_range t1" and "in_ts_range t2" and "t1 \<le> t2"
  shows "list_all (\<lambda>r. time r = Some (bucket g (tweet_created r))) (rows (assign_time g df))
    \<and> bucket ''Hourly'' t1 = Hour (dt_hour t1) \<and> dt_hour t1 \<le> 23
    \<and> bucket ''Daily'' t1 = Day (dt_date t1)
    \<and> (case dt_date t1 of (y, m, d) \<Rightarrow> 1 \<le> m \<and> m \<le> 12 \<and> 1 \<le> d \<and> d \<le> 31)
    \<and> bucket ''Weekly'' t1 = Week (week_label t1) \<and> length (week_label t1) = 21
    \<and> label_key (bucket ''Daily'' t1) \<le> label_key (bucket ''Daily'' t2)
    \<and> label_key (bucket ''Weekly'' t1) \<le> label_key (bucket ''Weekly'' t2)
    \<and> (dt_date t1 = dt_date t2 \<longrightarrow>
         label_key (bucket ''Hourly'' t1) \<le> label_key (bucket ''Hourly'' t2))"
proof -
  have v: "case dt_date t1 of (y, m, d) \<Rightarrow> 1 \<le> m \<and> m \<le> 12 \<and> 1 \<le> d \<and> d \<le> 31"
    using dt_date_valid [of t1] by (cases "dt_date t1") simp
  have h: "dt_hour t1 \<le> dt_hour t2" if "dt_date t1 = dt_date t2"
    using assms(3) dt_date_same_day [OF assms(1,2) that] by (rule dt_hour_mono_same_day)
  have d: "dt_date t1 \<le> dt_date t2"
    using assms(3) by (rule dt_date_mono)
  have w: "week_label t1 \<le> week_label t2"
    using assms(3,2) by (rule week_label_mono)
  have b: "bucket ''Hourly'' t = Hour (dt_hour t)" "bucket ''Daily'' t = Day (dt_date t)"
    "bucket ''Weekly'' t = Week (week_label t)" for t
    by (simp_all add: bucket_def)
  show ?thesis
    using v h d w
    by (simp add: times_assign_time b dt_hour_le length_week_label label_key_simps)
qed

lemma week_label_samples:
  "week_label 1424423700000000000 = ''2015-02-16/2015-02-22''"
  "week_label 1424473200000000000 = ''2015-02-16/2015-02-22''"
  by (simp_all add: week_label_def week_start_def weekday_def isoformat_def pad2_def pad4_def
        digit_def calendar_defs)

theorem bucket_labels_ordered_witness:
  "in_ts_range 1424423700000000000 \<and> in_ts_range 1424473200000000000
   \<and> (1424423700000000000 :: int) \<le> 1424473200000000000
   \<and> dt_date 1424423700000000000 = dt_date 1424473200000000000
   \<and> bucket ''Hourly'' 1424423700000000000 = Hour 9
   \<and> bucket ''Hourly'' 1424473200000000000 = Hour 23
   \<and> label_key (Hour 9) \<le> label_key (Hour 23)
   \<and> bucket ''Weekly'' 1424423700000000000 = Week ''2015-02-16/2015-02-22''
   \<and> label_key (Day (2015, 2, 20)) \<le> label_key (Day (2015, 2, 20))"
proof -
  have r: "in_ts_range 1424423700000000000" "in_ts_range 1424473200000000000"
    by (simp_all add: in_ts_range_def)
  have l: "(1424423700000000000 :: int) \<le> 1424473200000000000"
    by simp
  have e: "dt_date 1424423700000000000 = dt_date 1424473200000000000"
    by (simp add: dt_date_samples)
  from bucket_labels_ordered [OF r l] e have
    "bucket ''Hourly'' 1424423700000000000 = Hour (dt_hour 1424423700000000000)"
    "bucket ''Weekly'' 1424423700000000000 = Week (week_label 1424423700000000000)"
    "label_key (bucket ''Daily'' 1424423700000000000)
       \<le> label_key (bucket ''Daily'' 1424473200000000000)"
    "label_key (bucket ''Hourly'' 1424423700000000000)
       \<le> label_key (bucket ''Hourly'' 1424473200000000000)"
    by blast+
  then show ?thesis
    using r l e
    by (simp add: bucket_def dt_hour_samples dt_date_samples week_label_samples)
qed

text \<open>
  The claim as stated fails for the hourly labels: 23:00 on 20 February 2015 is before
  01:00 on 21 February, but its label, 23, sorts after the label 1.
\<close>

theorem hourly_labels_counterexample:
  "in_ts_range 1424473200000000000 \<and> in_ts_range 1424480400000000000
   \<and> (1424473200000000000 :: int) < 1424480400000000000
   \<and> bucket ''Hourly'' 1424473200000000000 = Hour 23
   \<and> bucket ''Hourly'' 1424480400000000000 = Hour 1
   \<and> label_key (Hour 1) < label_key (Hour 23)"
  by (simp add: in_ts_range_def bucket_def dt_hour_samples label_key_def less_prod_def)

end
